theory Spec2Isabelle
  imports Main "HOL-Library.Word" "HOL-Library.AList"
begin

section \<open>Data model\<close>

text \<open>
  Go's \<open>int64\<close> is a 64-bit word: \<open>+\<close> and \<open>*\<close> wrap around, and the order of the
  language is the signed one, read through \<open>sint\<close>.
\<close>

type_synonym int64 = "64 word"

text \<open>
  Go error values. \<open>RedisNil\<close> is the reply of the Redis client for a key or field that does
  not exist, \<open>ErrorsNew s\<close> is \<open>errors.New(s)\<close>, and \<open>External s\<close> is any error produced by
  a collaborator (transport, JSON library, Room Directory, token service).
\<close>

datatype error = RedisNil | ErrorsNew string | External string

subsection \<open>Structures of breakout_room.go and scheduler.go\<close>

record BreakoutRoomUser =
  user_Id :: string
  user_Name :: string

record BreakoutRoom =
  room_Id :: string
  room_Title :: string
  room_Duration :: int64
  room_Users :: "BreakoutRoomUser list"

record CreateBreakoutRoomsReq =
  cr_RoomId :: string
  cr_RequestedUserId :: string
  cr_Duration :: int64
  cr_WelcomeMsg :: string
  cr_Rooms :: "BreakoutRoom list"

record JoinBreakoutRoomReq =
  jr_RoomId :: string
  jr_BreakoutRoomId :: string
  jr_UserId :: string

record IncreaseBreakoutRoomDurationReq =
  ir_RoomId :: string
  ir_BreakoutRoomId :: string
  ir_Duration :: int64


record RedisRoomDurationCheckerReq =
  dc_Type :: string
  dc_RoomId :: string
  dc_Duration :: int64

subsection \<open>Structures declared elsewhere in the package\<close>

text \<open>
  The declarations of the following structures are not among the two source files; each
  record has the fields that the functions modelled here read or write, under the names
  the source uses for them.
\<close>

record BreakoutRoomFeatures =
  brf_IsAllow :: bool
  brf_IsActive :: bool

record WaitingRoomFeatures =
  wrf_IsActive :: bool

record RoomCreateFeatures =
  f_AllowRecording :: bool
  f_AllowRTMP :: bool
  f_RoomDuration :: int64
  f_BreakoutRoomFeatures :: BreakoutRoomFeatures
  f_WaitingRoomFeatures :: WaitingRoomFeatures

record RoomMetadata =
  md_RoomTitle :: string
  md_WelcomeMessage :: string
  md_IsBreakoutRoom :: bool
  md_Features :: RoomCreateFeatures

record RoomCreateReq =
  rc_RoomId :: string
  rc_RoomMetadata :: RoomMetadata

record RoomInfo =
  ri_Metadata :: string

record ParticipantInfo =
  pi_Name :: string
  pi_Metadata :: string

record UserMetadata =
  um_IsAdmin :: bool

record GenTokenUserInfo =
  ui_UserId :: string
  ui_Name :: string
  ui_IsAdmin :: bool
  ui_UserMetadata :: UserMetadata

record GenTokenReq =
  gt_RoomId :: string
  gt_UserInfo :: GenTokenUserInfo

record ReqFrom =
  rf_UserId :: string

record DataMessageBody =
  mb_Type :: string
  mb_From :: ReqFrom
  mb_Msg :: string

record DataMessageRes =
  dm_Type :: string
  dm_RoomId :: string
  dm_To :: string
  dm_Body :: DataMessageBody

record WebsocketRedisMsg =
  ws_Type :: string
  ws_Payload :: DataMessageRes
  ws_RoomId :: string
  ws_IsAdmin :: bool

record RoomWithDuration =
  rd_StartedAt :: int64
  rd_Duration :: int64

section \<open>The world outside the two files\<close>

text \<open>
  Every call that leaves the process is recorded, oldest first, together with the answer
  it got when the caller could have looked at it.
\<close>

datatype call =
    Call_LoadRoomInfo string
  | Call_CreateRoom RoomCreateReq bool
  | Call_UpdateRoomMetadata string string "error option"
  | Call_EndRoom string "error option"
  | Call_LoadParticipantInfo string string
  | Call_GenerateToken GenTokenReq
  | Call_HGet string string
  | Call_HGetAll string
  | Call_HSet string string string "error option"
  | Call_HDel string string "error option"
  | Call_Del string "error option"
  | Call_Publish string string "error option"
  | Call_TimeNow int64

datatype logged = LogErr error | LogMsg string

text \<open>
  The collaborators are parameters. Each answer may depend on the whole history of calls,
  so that the same call can succeed once and fail later. \<open>redis_fault\<close> says whether the
  Redis command issued after a given history fails in transport; the JSON functions are
  pure.
\<close>

record env =
  load_room :: "call list \<Rightarrow> string \<Rightarrow> error + RoomInfo"
  create_room :: "call list \<Rightarrow> RoomCreateReq \<Rightarrow> bool \<times> string"
  update_meta :: "call list \<Rightarrow> string \<Rightarrow> string \<Rightarrow> error option"
  end_room :: "call list \<Rightarrow> string \<Rightarrow> error option"
  load_participant :: "call list \<Rightarrow> string \<Rightarrow> string \<Rightarrow> error + ParticipantInfo"
  generate_token :: "call list \<Rightarrow> GenTokenReq \<Rightarrow> error + string"
  redis_fault :: "call list \<Rightarrow> error option"
  clock :: "call list \<Rightarrow> int64"
  marshal_room :: "BreakoutRoom \<Rightarrow> error + string"
  unmarshal_room :: "string \<Rightarrow> error + BreakoutRoom"
  marshal_meta :: "RoomMetadata \<Rightarrow> error + string"
  unmarshal_meta :: "string \<Rightarrow> error + RoomMetadata"
  unmarshal_user :: "string \<Rightarrow> error + UserMetadata"
  marshal_checker :: "RedisRoomDurationCheckerReq \<Rightarrow> error + string"
  marshal_ws :: "WebsocketRedisMsg \<Rightarrow> error + string"

text \<open>
  The state: the history of calls, the Redis hashes (one association list of fields per
  key, the empty list for a key that does not exist), the error log of the process, and
  the process-local map of rooms with a duration, in the order in which a \<open>range\<close> over
  it visits them (any order: the lists are arbitrary).
\<close>

record world =
  trace :: "call list"
  hashes :: "string \<Rightarrow> (string \<times> string) list"
  errlog :: "logged list"
  roomsWithDuration :: "(string \<times> RoomWithDuration) list"

definition logcall :: "call \<Rightarrow> world \<Rightarrow> world" where
  "logcall c w = w\<lparr>trace := trace w @ [c]\<rparr>"

definition log_Error :: "logged \<Rightarrow> world \<Rightarrow> world" where
  "log_Error l w = w\<lparr>errlog := errlog w @ [l]\<rparr>"

text \<open>The calls made since an earlier history of length \<open>n\<close>.\<close>

definition since :: "world \<Rightarrow> world \<Rightarrow> call list" where
  "since w w' = drop (length (trace w)) (trace w')"

subsection \<open>Redis commands\<close>

text \<open>
  \<open>HGet\<close> answers \<open>redis.Nil\<close> for a field that is not there. \<open>HGetAll\<close> answers a
  map, which in Go is either \<open>nil\<close> (\<open>None\<close>) or a map value, possibly without entries;
  the client library builds a map value for every reply it reads.
\<close>

definition HGet :: "env \<Rightarrow> string \<Rightarrow> string \<Rightarrow> world \<Rightarrow> (error + string) \<times> world" where
  "HGet e key field w =
     ((case redis_fault e (trace w) of
         Some err \<Rightarrow> Inl err
       | None \<Rightarrow> (case map_of (hashes w key) field of
                    None \<Rightarrow> Inl RedisNil
                  | Some v \<Rightarrow> Inr v)),
      logcall (Call_HGet key field) w)"

definition HGetAll ::
  "env \<Rightarrow> string \<Rightarrow> world \<Rightarrow> (error + (string \<times> string) list option) \<times> world" where
  "HGetAll e key w =
     ((case redis_fault e (trace w) of
         Some err \<Rightarrow> Inl err
       | None \<Rightarrow> Inr (Some (hashes w key))),
      logcall (Call_HGetAll key) w)"

text \<open>\<open>pp.HSet(ctx, key, {field: val})\<close> followed by \<open>pp.Exec(ctx)\<close>.\<close>

definition HSetExec ::
  "env \<Rightarrow> string \<Rightarrow> string \<Rightarrow> string \<Rightarrow> world \<Rightarrow> error option \<times> world" where
  "HSetExec e key field val w =
     (case redis_fault e (trace w) of
        Some err \<Rightarrow> (Some err, logcall (Call_HSet key field val (Some err)) w)
      | None \<Rightarrow>
          (None, logcall (Call_HSet key field val None)
                   (w\<lparr>hashes := (hashes w)(key := AList.update field val (hashes w key))\<rparr>)))"


definition Del :: "env \<Rightarrow> string \<Rightarrow> world \<Rightarrow> world" where
  "Del e key w =
     (case redis_fault e (trace w) of
        Some err \<Rightarrow> logcall (Call_Del key (Some err)) w
      | None \<Rightarrow> logcall (Call_Del key None) (w\<lparr>hashes := (hashes w)(key := [])\<rparr>))"

definition Publish :: "env \<Rightarrow> string \<Rightarrow> string \<Rightarrow> world \<Rightarrow> world" where
  "Publish e channel payload w =
     logcall (Call_Publish channel payload (redis_fault e (trace w))) w"

subsection \<open>Room Directory, token service, clock\<close>

definition LoadRoomInfoFromRedis ::
  "env \<Rightarrow> string \<Rightarrow> world \<Rightarrow> (error + RoomInfo) \<times> world" where
  "LoadRoomInfoFromRedis e roomId w =
     (load_room e (trace w) roomId, logcall (Call_LoadRoomInfo roomId) w)"

definition CreateRoom :: "env \<Rightarrow> RoomCreateReq \<Rightarrow> world \<Rightarrow> (bool \<times> string) \<times> world" where
  "CreateRoom e req w =
     (create_room e (trace w) req,
      logcall (Call_CreateRoom req (fst (create_room e (trace w) req))) w)"

definition UpdateRoomMetadata ::
  "env \<Rightarrow> string \<Rightarrow> string \<Rightarrow> world \<Rightarrow> error option \<times> world" where
  "UpdateRoomMetadata e roomId metadata w =
     (update_meta e (trace w) roomId metadata,
      logcall (Call_UpdateRoomMetadata roomId metadata (update_meta e (trace w) roomId metadata)) w)"

definition EndRoom :: "env \<Rightarrow> string \<Rightarrow> world \<Rightarrow> error option \<times> world" where
  "EndRoom e roomId w =
     (end_room e (trace w) roomId, logcall (Call_EndRoom roomId (end_room e (trace w) roomId)) w)"

definition LoadParticipantInfoFromRedis ::
  "env \<Rightarrow> string \<Rightarrow> string \<Rightarrow> world \<Rightarrow> (error + ParticipantInfo) \<times> world" where
  "LoadParticipantInfoFromRedis e roomId userId w =
     (load_participant e (trace w) roomId userId, logcall (Call_LoadParticipantInfo roomId userId) w)"

definition DoGenerateToken :: "env \<Rightarrow> GenTokenReq \<Rightarrow> world \<Rightarrow> (error + string) \<times> world" where
  "DoGenerateToken e req w =
     (generate_token e (trace w) req, logcall (Call_GenerateToken req) w)"

definition time_Now_Unix :: "env \<Rightarrow> world \<Rightarrow> int64 \<times> world" where
  "time_Now_Unix e w = (clock e (trace w), logcall (Call_TimeNow (clock e (trace w))) w)"

section \<open>breakout_room.go\<close>

definition breakoutRoomKey :: string where
  "breakoutRoomKey = ''pnm:breakoutRoom:''"

subsection \<open>fetchBreakoutRoom and fetchBreakoutRooms\<close>

definition fetchBreakoutRoom ::
  "env \<Rightarrow> string \<Rightarrow> string \<Rightarrow> world \<Rightarrow> (error + BreakoutRoom) \<times> world" where
  "fetchBreakoutRoom e roomId breakoutRoomId w =
     (case HGet e (breakoutRoomKey @ roomId) breakoutRoomId w of
        (Inl err, w1) \<Rightarrow> (Inl err, w1)
      | (Inr result, w1) \<Rightarrow>
          if result = [] then (Inl (ErrorsNew ''not found''), w1)
          else (case unmarshal_room e result of
                  Inl err \<Rightarrow> (Inl err, w1)
                | Inr room \<Rightarrow> (Inr room, w1)))"

text \<open>A \<open>range\<close> over a \<open>nil\<close> map visits nothing.\<close>

definition map_entries :: "(string \<times> string) list option \<Rightarrow> (string \<times> string) list" where
  "map_entries m = (case m of None \<Rightarrow> [] | Some kvs \<Rightarrow> kvs)"

text \<open>
  The loop of \<open>fetchBreakoutRooms\<close>: a value that does not decode is passed over, a
  decoded room gets the field name as its id and is appended.
\<close>

fun decode_rooms :: "env \<Rightarrow> (string \<times> string) list \<Rightarrow> BreakoutRoom list \<Rightarrow> BreakoutRoom list" where
  "decode_rooms e [] breakoutRooms = breakoutRooms"
| "decode_rooms e ((i, r) # rest) breakoutRooms =
     (case unmarshal_room e r of
        Inl err \<Rightarrow> decode_rooms e rest breakoutRooms
      | Inr room \<Rightarrow> decode_rooms e rest (breakoutRooms @ [room\<lparr>room_Id := i\<rparr>]))"

definition fetchBreakoutRooms ::
  "env \<Rightarrow> string \<Rightarrow> world \<Rightarrow> (error + BreakoutRoom list) \<times> world" where
  "fetchBreakoutRooms e roomId w =
     (case HGetAll e (breakoutRoomKey @ roomId) w of
        (Inl err, w1) \<Rightarrow> (Inl err, w1)
      | (Inr rooms, w1) \<Rightarrow>
          if rooms \<noteq> None then (Inl (ErrorsNew ''no breakout room found''), w1)
          else (Inr (decode_rooms e (map_entries rooms) []), w1))"

subsection \<open>broadcastNotification\<close>

text \<open>The message that \<open>broadcastNotification\<close> builds before it serialises it.\<close>

definition notification_msg ::
  "string \<Rightarrow> string \<Rightarrow> string \<Rightarrow> string \<Rightarrow> string \<Rightarrow> string \<Rightarrow> bool \<Rightarrow> WebsocketRedisMsg" where
  "notification_msg roomId fromUserId toUserId broadcastMsg typeMsg mType isAdmin =
     (let payload = \<lparr>dm_Type = typeMsg, dm_RoomId = roomId, dm_To = [],
                     dm_Body = \<lparr>mb_Type = mType, mb_From = \<lparr>rf_UserId = fromUserId\<rparr>,
                                mb_Msg = broadcastMsg\<rparr>\<rparr>;
          payload = (if toUserId \<noteq> [] then payload\<lparr>dm_To := toUserId\<rparr> else payload)
      in \<lparr>ws_Type = ''sendMsg'', ws_Payload = payload, ws_RoomId = roomId,
          ws_IsAdmin = isAdmin\<rparr>)"

definition broadcastNotification ::
  "env \<Rightarrow> string \<Rightarrow> string \<Rightarrow> string \<Rightarrow> string \<Rightarrow> string \<Rightarrow> string \<Rightarrow> bool \<Rightarrow> world
     \<Rightarrow> error option \<times> world" where
  "broadcastNotification e roomId fromUserId toUserId broadcastMsg typeMsg mType isAdmin w =
     (case marshal_ws e
             (notification_msg roomId fromUserId toUserId broadcastMsg typeMsg mType isAdmin) of
        Inl err \<Rightarrow> (Some err, w)
      | Inr marshal \<Rightarrow> (None, Publish e ''plug-n-meet-websocket'' marshal w))"

subsection \<open>CreateBreakoutRooms\<close>

text \<open>The overrides applied to the copy of the parent's metadata, in the order of the source.\<close>

definition child_template :: "CreateBreakoutRoomsReq \<Rightarrow> RoomMetadata \<Rightarrow> RoomMetadata" where
  "child_template r meta =
     (let meta = meta\<lparr>md_Features := (md_Features meta)\<lparr>f_RoomDuration := cr_Duration r\<rparr>\<rparr>;
          meta = meta\<lparr>md_IsBreakoutRoom := True\<rparr>;
          meta = meta\<lparr>md_WelcomeMessage := cr_WelcomeMsg r\<rparr>;
          meta = meta\<lparr>md_Features := (md_Features meta)
                   \<lparr>f_BreakoutRoomFeatures :=
                      (f_BreakoutRoomFeatures (md_Features meta))\<lparr>brf_IsAllow := False\<rparr>\<rparr>\<rparr>;
          meta = meta\<lparr>md_Features := (md_Features meta)
                   \<lparr>f_WaitingRoomFeatures :=
                      (f_WaitingRoomFeatures (md_Features meta))\<lparr>wrf_IsActive := False\<rparr>\<rparr>\<rparr>;
          meta = meta\<lparr>md_Features := (md_Features meta)\<lparr>f_AllowRecording := False\<rparr>\<rparr>;
          meta = meta\<lparr>md_Features := (md_Features meta)\<lparr>f_AllowRTMP := False\<rparr>\<rparr>
      in meta)"

text \<open>The inner loop: one invitation per user of the room; a failed one is logged.\<close>

fun notify_users ::
  "env \<Rightarrow> CreateBreakoutRoomsReq \<Rightarrow> string \<Rightarrow> BreakoutRoomUser list \<Rightarrow> world \<Rightarrow> world" where
  "notify_users e r bRoomId [] w = w"
| "notify_users e r bRoomId (u # us) w =
     (case broadcastNotification e (cr_RoomId r) (cr_RequestedUserId r) (user_Id u) bRoomId
             ''SYSTEM'' ''JOIN_BREAKOUT_ROOM'' False w of
        (Some err, w1) \<Rightarrow> notify_users e r bRoomId us (log_Error (LogErr err) w1)
      | (None, w1) \<Rightarrow> notify_users e r bRoomId us w1)"

text \<open>
  One pass of the outer loop, for one requested room; \<open>meta\<close> already carries the title
  of this room. Each \<open>continue\<close> of the source is a branch that returns the world as it is
  at that point.
\<close>

definition create_room_step ::
  "env \<Rightarrow> CreateBreakoutRoomsReq \<Rightarrow> RoomMetadata \<Rightarrow> BreakoutRoom \<Rightarrow> world \<Rightarrow> world" where
  "create_room_step e r meta room w =
     (let bRoomId = cr_RoomId r @ '':'' @ room_Id room;
          bRoom = \<lparr>rc_RoomId = bRoomId, rc_RoomMetadata = meta\<rparr>
      in case CreateRoom e bRoom w of
           ((status, msg), w1) \<Rightarrow>
             if \<not> status then log_Error (LogMsg msg) w1
             else
               (let room = room\<lparr>room_Duration := cr_Duration r\<rparr>
                in case marshal_room e room of
                     Inl err \<Rightarrow> log_Error (LogErr err) w1
                   | Inr marshal \<Rightarrow>
                       (case HSetExec e (breakoutRoomKey @ cr_RoomId r) bRoomId marshal w1 of
                          (Some err, w2) \<Rightarrow> log_Error (LogErr err) w2
                        | (None, w2) \<Rightarrow> notify_users e r bRoomId (room_Users room) w2)))"

fun create_rooms_loop ::
  "env \<Rightarrow> CreateBreakoutRoomsReq \<Rightarrow> RoomMetadata \<Rightarrow> BreakoutRoom list \<Rightarrow> world \<Rightarrow> world" where
  "create_rooms_loop e r meta [] w = w"
| "create_rooms_loop e r meta (room # rooms) w =
     create_rooms_loop e r (meta\<lparr>md_RoomTitle := room_Title room\<rparr>) rooms
       (create_room_step e r (meta\<lparr>md_RoomTitle := room_Title room\<rparr>) room w)"

definition set_breakout_active :: "RoomMetadata \<Rightarrow> RoomMetadata" where
  "set_breakout_active origMeta =
     origMeta\<lparr>md_Features := (md_Features origMeta)
       \<lparr>f_BreakoutRoomFeatures :=
          (f_BreakoutRoomFeatures (md_Features origMeta))\<lparr>brf_IsActive := True\<rparr>\<rparr>\<rparr>"

definition CreateBreakoutRooms ::
  "env \<Rightarrow> CreateBreakoutRoomsReq \<Rightarrow> world \<Rightarrow> error option \<times> world" where
  "CreateBreakoutRooms e r w =
     (case LoadRoomInfoFromRedis e (cr_RoomId r) w of
        (Inl err, w1) \<Rightarrow> (Some err, w1)
      | (Inr mainRoom, w1) \<Rightarrow>
          (case unmarshal_meta e (ri_Metadata mainRoom) of
             Inl err \<Rightarrow> (Some err, w1)
           | Inr meta \<Rightarrow>
               (let w2 = create_rooms_loop e r (child_template r meta) (cr_Rooms r) w1
                in case unmarshal_meta e (ri_Metadata mainRoom) of
                     Inl err \<Rightarrow> (Some err, w2)
                   | Inr origMeta \<Rightarrow>
                       (case marshal_meta e (set_breakout_active origMeta) of
                          Inl err \<Rightarrow> (Some err, w2)
                        | Inr marshal \<Rightarrow>
                            (case UpdateRoomMetadata e (cr_RoomId r) marshal w2 of
                               (Some err, w3) \<Rightarrow> (Some err, w3)
                             | (None, w3) \<Rightarrow> (None, w3))))))"

subsection \<open>JoinBreakoutRoom\<close>

definition canJoin :: "BreakoutRoomUser list \<Rightarrow> string \<Rightarrow> bool" where
  "canJoin users userId = foldl (\<lambda>c u. if user_Id u = userId then True else c) False users"

definition JoinBreakoutRoom ::
  "env \<Rightarrow> JoinBreakoutRoomReq \<Rightarrow> world \<Rightarrow> (error + string) \<times> world" where
  "JoinBreakoutRoom e r w =
     (case fetchBreakoutRoom e (jr_RoomId r) (jr_BreakoutRoomId r) w of
        (Inl err, w1) \<Rightarrow> (Inl err, w1)
      | (Inr room, w1) \<Rightarrow>
          if \<not> canJoin (room_Users room) (jr_UserId r)
          then (Inl (ErrorsNew ''you can't join in this room''), w1)
          else
            (case LoadParticipantInfoFromRedis e (jr_RoomId r) (jr_UserId r) w1 of
               (Inl err, w2) \<Rightarrow> (Inl err, w2)
             | (Inr p, w2) \<Rightarrow>
                 (case unmarshal_user e (pi_Metadata p) of
                    Inl err \<Rightarrow> (Inl err, w2)
                  | Inr meta \<Rightarrow>
                      (let req = \<lparr>gt_RoomId = jr_BreakoutRoomId r,
                                  gt_UserInfo = \<lparr>ui_UserId = jr_UserId r, ui_Name = pi_Name p,
                                                 ui_IsAdmin = um_IsAdmin meta,
                                                 ui_UserMetadata = meta\<rparr>\<rparr>
                       in case DoGenerateToken e req w2 of
                            (Inl err, w3) \<Rightarrow> (Inl err, w3)
                          | (Inr token, w3) \<Rightarrow> (Inr token, w3)))))"

subsection \<open>GetBreakoutRooms, IncreaseBreakoutRoomDuration\<close>

definition GetBreakoutRooms ::
  "env \<Rightarrow> string \<Rightarrow> world \<Rightarrow> (error + BreakoutRoom list) \<times> world" where
  "GetBreakoutRooms e roomId w =
     (case fetchBreakoutRooms e roomId w of
        (Inl err, w1) \<Rightarrow> (Inl err, w1)
      | (Inr breakoutRooms, w1) \<Rightarrow> (Inr breakoutRooms, w1))"

definition IncreaseBreakoutRoomDuration ::
  "env \<Rightarrow> IncreaseBreakoutRoomDurationReq \<Rightarrow> world \<Rightarrow> error option \<times> world" where
  "IncreaseBreakoutRoomDuration e r w =
     (case fetchBreakoutRoom e (ir_RoomId r) (ir_BreakoutRoomId r) w of
        (Inl err, w1) \<Rightarrow> (Some err, w1)
      | (Inr room, w1) \<Rightarrow>
          (let req = \<lparr>dc_Type = ''increaseDuration'', dc_RoomId = ir_BreakoutRoomId r,
                      dc_Duration = ir_Duration r\<rparr>
           in case marshal_checker e req of
                Inl err \<Rightarrow> (Some err, w1)
              | Inr reqMar \<Rightarrow>
                  (let w2 = Publish e ''plug-n-meet-room-duration-checker'' reqMar w1;
                       room = room\<lparr>room_Duration := ir_Duration r\<rparr>
                   in case marshal_room e room of
                        Inl err \<Rightarrow> (Some err, w2)
                      | Inr marshal \<Rightarrow>
                          HSetExec e (breakoutRoomKey @ ir_RoomId r) (ir_BreakoutRoomId r)
                            marshal w2)))"

subsection \<open>EndBreakoutRoom and EndBreakoutRooms\<close>


fun end_rooms_loop :: "env \<Rightarrow> BreakoutRoom list \<Rightarrow> world \<Rightarrow> world" where
  "end_rooms_loop e [] w = w"
| "end_rooms_loop e (r # rooms) w =
     (case EndRoom e (room_Id r) w of
        (Some err, w1) \<Rightarrow> end_rooms_loop e rooms w1
      | (None, w1) \<Rightarrow> end_rooms_loop e rooms w1)"

definition EndBreakoutRooms :: "env \<Rightarrow> string \<Rightarrow> world \<Rightarrow> error option \<times> world" where
  "EndBreakoutRooms e roomId w =
     (case fetchBreakoutRooms e roomId w of
        (Inl err, w1) \<Rightarrow> (Some err, w1)
      | (Inr rooms, w1) \<Rightarrow>
          (None, Del e (breakoutRoomKey @ roomId) (end_rooms_loop e rooms w1)))"

section \<open>scheduler.go\<close>

text \<open>
  One pass of the loop of \<open>checkRoomWithDuration\<close>, for the entry \<open>(i, r)\<close> of the map:
  the clock is read in every pass, the deadline is computed in \<open>int64\<close>, and the
  comparison is the signed one.
\<close>

definition check_room :: "env \<Rightarrow> string \<times> RoomWithDuration \<Rightarrow> world \<Rightarrow> world" where
  "check_room e ir w =
     (case time_Now_Unix e w of
        (now, w1) \<Rightarrow>
          (let valid = rd_StartedAt (snd ir) + (rd_Duration (snd ir) * 60)
           in if sint valid < sint now
              then (case EndRoom e (fst ir) w1 of
                      (Some err, w2) \<Rightarrow> log_Error (LogErr err) w2
                    | (None, w2) \<Rightarrow> w2)
              else w1))"

fun sweep :: "env \<Rightarrow> (string \<times> RoomWithDuration) list \<Rightarrow> world \<Rightarrow> world" where
  "sweep e [] w = w"
| "sweep e (ir # rooms) w = sweep e rooms (check_room e ir w)"

definition checkRoomWithDuration :: "env \<Rightarrow> world \<Rightarrow> world" where
  "checkRoomWithDuration e w = sweep e (roomsWithDuration w) w"

section \<open>The partial-failure policy, room by room\<close>

text \<open>
  The specification's account of \<open>CreateBreakoutRooms\<close>, written on histories and without
  the loop of the source: every requested room has one of four outcomes, decided by what
  the collaborators answer when its turn comes, and each outcome fixes the calls made for
  the room, what is logged, and whether a record is stored. These definitions follow the
  words of the specification; the theorem on \<open>CreateBreakoutRooms\<close> compares the source
  with them.
\<close>

datatype outcome =
    Rejected string
  | Unserialisable error
  | NotPersisted string error
  | Persisted string

text \<open>The child room requested for \<open>room\<close>: the template with the title of the room.\<close>

definition child_req :: "CreateBreakoutRoomsReq \<Rightarrow> RoomMetadata \<Rightarrow> BreakoutRoom \<Rightarrow> RoomCreateReq" where
  "child_req r template room =
     \<lparr>rc_RoomId = cr_RoomId r @ '':'' @ room_Id room,
      rc_RoomMetadata = template\<lparr>md_RoomTitle := room_Title room\<rparr>\<rparr>"

definition room_outcome ::
  "env \<Rightarrow> CreateBreakoutRoomsReq \<Rightarrow> RoomMetadata \<Rightarrow> BreakoutRoom \<Rightarrow> call list \<Rightarrow> outcome" where
  "room_outcome e r template room h =
     (if \<not> fst (create_room e h (child_req r template room))
      then Rejected (snd (create_room e h (child_req r template room)))
      else (case marshal_room e (room\<lparr>room_Duration := cr_Duration r\<rparr>) of
              Inl err \<Rightarrow> Unserialisable err
            | Inr s \<Rightarrow>
                (case redis_fault e (h @ [Call_CreateRoom (child_req r template room) True]) of
                   Some err \<Rightarrow> NotPersisted s err
                 | None \<Rightarrow> Persisted s)))"

text \<open>
  The invitations of a stored room, best effort: one publish for every user whose
  message serialises, one log entry for every user whose message does not.
\<close>

fun invitations ::
  "env \<Rightarrow> CreateBreakoutRoomsReq \<Rightarrow> string \<Rightarrow> BreakoutRoomUser list \<Rightarrow> call list
     \<Rightarrow> call list \<times> logged list" where
  "invitations e r bRoomId [] h = ([], [])"
| "invitations e r bRoomId (u # us) h =
     (case marshal_ws e (notification_msg (cr_RoomId r) (cr_RequestedUserId r) (user_Id u)
                           bRoomId ''SYSTEM'' ''JOIN_BREAKOUT_ROOM'' False) of
        Inl err \<Rightarrow>
          (fst (invitations e r bRoomId us h), LogErr err # snd (invitations e r bRoomId us h))
      | Inr s \<Rightarrow>
          (Call_Publish ''plug-n-meet-websocket'' s (redis_fault e h)
             # fst (invitations e r bRoomId us
                      (h @ [Call_Publish ''plug-n-meet-websocket'' s (redis_fault e h)])),
           snd (invitations e r bRoomId us
                  (h @ [Call_Publish ''plug-n-meet-websocket'' s (redis_fault e h)]))))"

text \<open>
  What one room adds after the history \<open>h\<close>: the calls, the log entries, and the field
  stored in the parent's hash, if any. A room that is rejected, does not serialise or is
  not persisted is skipped: nothing is stored and nobody is invited.
\<close>

definition room_effect ::
  "env \<Rightarrow> CreateBreakoutRoomsReq \<Rightarrow> RoomMetadata \<Rightarrow> BreakoutRoom \<Rightarrow> call list
     \<Rightarrow> call list \<times> logged list \<times> (string \<times> string) list" where
  "room_effect e r template room h =
     (case room_outcome e r template room h of
        Rejected msg \<Rightarrow>
          ([Call_CreateRoom (child_req r template room) False], [LogMsg msg], [])
      | Unserialisable err \<Rightarrow>
          ([Call_CreateRoom (child_req r template room) True], [LogErr err], [])
      | NotPersisted s err \<Rightarrow>
          ([Call_CreateRoom (child_req r template room) True,
            Call_HSet (breakoutRoomKey @ cr_RoomId r) (cr_RoomId r @ '':'' @ room_Id room) s
              (Some err)],
           [LogErr err], [])
      | Persisted s \<Rightarrow>
          ([Call_CreateRoom (child_req r template room) True,
            Call_HSet (breakoutRoomKey @ cr_RoomId r) (cr_RoomId r @ '':'' @ room_Id room) s None]
           @ fst (invitations e r (cr_RoomId r @ '':'' @ room_Id room) (room_Users room)
                    (h @ [Call_CreateRoom (child_req r template room) True,
                          Call_HSet (breakoutRoomKey @ cr_RoomId r)
                            (cr_RoomId r @ '':'' @ room_Id room) s None])),
           snd (invitations e r (cr_RoomId r @ '':'' @ room_Id room) (room_Users room)
                  (h @ [Call_CreateRoom (child_req r template room) True,
                        Call_HSet (breakoutRoomKey @ cr_RoomId r)
                          (cr_RoomId r @ '':'' @ room_Id room) s None])),
           [(cr_RoomId r @ '':'' @ room_Id room, s)]))"

text \<open>
  All the rooms of the request, in order: whatever the outcome of a room, the next room
  is processed after the calls of this one.
\<close>

fun rooms_effect ::
  "env \<Rightarrow> CreateBreakoutRoomsReq \<Rightarrow> RoomMetadata \<Rightarrow> BreakoutRoom list \<Rightarrow> call list
     \<Rightarrow> call list \<times> logged list \<times> (string \<times> string) list" where
  "rooms_effect e r template [] h = ([], [], [])"
| "rooms_effect e r template (room # rooms) h =
     (fst (room_effect e r template room h)
        @ fst (rooms_effect e r template rooms (h @ fst (room_effect e r template room h))),
      fst (snd (room_effect e r template room h))
        @ fst (snd (rooms_effect e r template rooms (h @ fst (room_effect e r template room h)))),
      snd (snd (room_effect e r template room h))
        @ snd (snd (rooms_effect e r template rooms (h @ fst (room_effect e r template room h)))))"

text \<open>Storing a list of fields in a hash, one after the other.\<close>

definition store_fields :: "(string \<times> string) list \<Rightarrow> (string \<times> string) list \<Rightarrow> (string \<times> string) list" where
  "store_fields kvs hash = foldl (\<lambda>al kv. AList.update (fst kv) (snd kv) al) hash kvs"

section \<open>Reading a history\<close>

text \<open>The rooms that the Room Directory was asked to end, in order.\<close>

fun end_calls :: "call list \<Rightarrow> string list" where
  "end_calls [] = []"
| "end_calls (Call_EndRoom i res # cs) = i # end_calls cs"
| "end_calls (c # cs) = end_calls cs"

text \<open>The errors that the Room Directory answered to those requests, in order.\<close>

fun end_failures :: "call list \<Rightarrow> error list" where
  "end_failures [] = []"
| "end_failures (Call_EndRoom i (Some err) # cs) = err # end_failures cs"
| "end_failures (c # cs) = end_failures cs"

text \<open>The values that the clock gave, in order.\<close>

fun clock_reads :: "call list \<Rightarrow> int64 list" where
  "clock_reads [] = []"
| "clock_reads (Call_TimeNow t # cs) = t # clock_reads cs"
| "clock_reads (c # cs) = clock_reads cs"

text \<open>The requests to create a child room, in order.\<close>

fun create_calls :: "call list \<Rightarrow> RoomCreateReq list" where
  "create_calls [] = []"
| "create_calls (Call_CreateRoom req ok # cs) = req # create_calls cs"
| "create_calls (c # cs) = create_calls cs"

text \<open>The room ids whose information was loaded from the Room Directory, in order.\<close>

fun load_calls :: "call list \<Rightarrow> string list" where
  "load_calls [] = []"
| "load_calls (Call_LoadRoomInfo i # cs) = i # load_calls cs"
| "load_calls (c # cs) = load_calls cs"

text \<open>The token requests, in order.\<close>

fun token_calls :: "call list \<Rightarrow> GenTokenReq list" where
  "token_calls [] = []"
| "token_calls (Call_GenerateToken req # cs) = req # token_calls cs"
| "token_calls (c # cs) = token_calls cs"

section \<open>A concrete deployment\<close>

text \<open>
  One parent room \<open>room1\<close> with one breakout room \<open>room1:r1\<close> and two invited users, every
  collaborator answering with success, and a JSON codec given as a table over the values
  that occur.
\<close>

definition sample_room :: BreakoutRoom where
  "sample_room =
     \<lparr>room_Id = ''r1'', room_Title = ''Team A'', room_Duration = 30,
      room_Users = [\<lparr>user_Id = ''u1'', user_Name = ''Ann''\<rparr>,
                    \<lparr>user_Id = ''u2'', user_Name = ''Bob''\<rparr>]\<rparr>"

text \<open>Three more rooms; the JSON table below does not know the first of them.\<close>

definition odd_room :: BreakoutRoom where
  "odd_room =
     \<lparr>room_Id = ''r0'', room_Title = ''Team X'', room_Duration = 0,
      room_Users = [\<lparr>user_Id = ''u9'', user_Name = ''Zed''\<rparr>]\<rparr>"

definition second_room :: BreakoutRoom where
  "second_room =
     \<lparr>room_Id = ''r2'', room_Title = ''Team B'', room_Duration = 30,
      room_Users = [\<lparr>user_Id = ''u3'', user_Name = ''Cy''\<rparr>]\<rparr>"

definition third_room :: BreakoutRoom where
  "third_room =
     \<lparr>room_Id = ''r3'', room_Title = ''Team C'', room_Duration = 30,
      room_Users = [\<lparr>user_Id = ''u4'', user_Name = ''Di''\<rparr>]\<rparr>"

definition sample_meta :: RoomMetadata where
  "sample_meta =
     \<lparr>md_RoomTitle = ''Main'', md_WelcomeMessage = ''hello'', md_IsBreakoutRoom = False,
      md_Features =
        \<lparr>f_AllowRecording = True, f_AllowRTMP = True, f_RoomDuration = 0,
         f_BreakoutRoomFeatures = \<lparr>brf_IsAllow = True, brf_IsActive = False\<rparr>,
         f_WaitingRoomFeatures = \<lparr>wrf_IsActive = True\<rparr>\<rparr>\<rparr>"

text \<open>The parent's metadata after somebody else has renamed the room.\<close>

definition edited_meta :: RoomMetadata where
  "edited_meta = sample_meta\<lparr>md_RoomTitle := ''Renamed''\<rparr>"

definition sample_env :: env where
  "sample_env =
     \<lparr>load_room = (\<lambda>tr i. if i = ''room1'' then Inr \<lparr>ri_Metadata = ''M0''\<rparr>
                            else Inl (External ''room is not active'')),
      create_room = (\<lambda>tr req. (True, ''success'')),
      update_meta = (\<lambda>tr i s. None),
      end_room = (\<lambda>tr i. None),
      load_participant = (\<lambda>tr i u. Inr \<lparr>pi_Name = ''Ann'', pi_Metadata = ''U0''\<rparr>),
      generate_token = (\<lambda>tr req. Inr (''token-for-'' @ ui_UserId (gt_UserInfo req))),
      redis_fault = (\<lambda>tr. None),
      clock = (\<lambda>tr. 1000),
      marshal_room = (\<lambda>room.
        if room = sample_room then Inr ''R30''
        else if room = sample_room\<lparr>room_Duration := 45\<rparr> then Inr ''R45''
        else if room = second_room then Inr ''S30''
        else if room = third_room then Inr ''T30''
        else Inl (External ''json: unsupported value'')),
      unmarshal_room = (\<lambda>s.
        if s = ''R30'' then Inr sample_room
        else if s = ''R45'' then Inr (sample_room\<lparr>room_Duration := 45\<rparr>)
        else if s = ''S30'' then Inr second_room
        else if s = ''T30'' then Inr third_room
        else Inl (External ''invalid character'')),
      marshal_meta = (\<lambda>m.
        if m = sample_meta then Inr ''M0''
        else if m = set_breakout_active sample_meta then Inr ''M1''
        else if m = edited_meta then Inr ''M2''
        else if m = set_breakout_active edited_meta then Inr ''M3''
        else Inl (External ''json: unsupported value'')),
      unmarshal_meta = (\<lambda>s.
        if s = ''M0'' then Inr sample_meta
        else if s = ''M1'' then Inr (set_breakout_active sample_meta)
        else if s = ''M2'' then Inr edited_meta
        else if s = ''M3'' then Inr (set_breakout_active edited_meta)
        else Inl (External ''invalid character'')),
      unmarshal_user = (\<lambda>s.
        if s = ''U0'' then Inr \<lparr>um_IsAdmin = False\<rparr>
        else Inl (External ''invalid character'')),
      marshal_checker = (\<lambda>req.
        if dc_Type req = ''increaseDuration'' \<and> dc_RoomId req = ''room1:r1''
           \<and> dc_Duration req = 45
        then Inr ''D45'' else Inl (External ''json: unsupported value'')),
      marshal_ws = (\<lambda>m. Inr (ws_RoomId m @ ''>'' @ dm_To (ws_Payload m)))\<rparr>"

text \<open>
  The same deployment, with a Room Directory in which the parent's metadata is \<open>M0\<close>
  when the first call arrives and \<open>M2\<close>, the renamed room, from then on.
\<close>

definition edited_env :: env where
  "edited_env =
     sample_env\<lparr>load_room := (\<lambda>tr i. Inr \<lparr>ri_Metadata = (if tr = [] then ''M0'' else ''M2'')\<rparr>)\<rparr>"

text \<open>The request of \<open>user42\<close> for one breakout room of 30 minutes under \<open>room1\<close>.\<close>

definition sample_req :: CreateBreakoutRoomsReq where
  "sample_req =
     \<lparr>cr_RoomId = ''room1'', cr_RequestedUserId = ''user42'', cr_Duration = 30,
      cr_WelcomeMsg = ''welcome'', cr_Rooms = [sample_room\<lparr>room_Duration := 0\<rparr>]\<rparr>"

text \<open>A Room Directory that refuses to update the metadata, and one that refuses to end a room.\<close>

definition readonly_env :: env where
  "readonly_env = sample_env\<lparr>update_meta := (\<lambda>tr i s. Some (External ''update failed''))\<rparr>"

definition refusing_env :: env where
  "refusing_env = sample_env\<lparr>end_room := (\<lambda>tr i. Some (External ''room not active''))\<rparr>"

text \<open>
  A deployment in which things go wrong room by room: the Room Directory rejects
  \<open>room1:r1\<close>, and the Redis command issued as the fifth call is refused. The request
  below asks for four rooms: the first is rejected, the record of the second does not
  serialise, the \<open>HSet\<close> of the third is the refused command, the fourth goes through.
\<close>

definition faulty_env :: env where
  "faulty_env =
     sample_env
       \<lparr>create_room := (\<lambda>tr req. if rc_RoomId req = ''room1:r1''
                                   then (False, ''room already exists'')
                                   else (True, ''success'')),
        redis_fault := (\<lambda>tr. if length tr = 4 then Some (External ''connection refused'')
                              else None)\<rparr>"

definition four_rooms_req :: CreateBreakoutRoomsReq where
  "four_rooms_req =
     \<lparr>cr_RoomId = ''room1'', cr_RequestedUserId = ''user42'', cr_Duration = 30,
      cr_WelcomeMsg = ''welcome'',
      cr_Rooms = [sample_room\<lparr>room_Duration := 0\<rparr>, odd_room,
                  second_room\<lparr>room_Duration := 0\<rparr>, third_room\<lparr>room_Duration := 0\<rparr>]\<rparr>"

text \<open>No call made yet and nothing stored.\<close>

definition empty_world :: world where
  "empty_world = \<lparr>trace = [], hashes = (\<lambda>key. []), errlog = [], roomsWithDuration = []\<rparr>"

text \<open>The hash of \<open>room1\<close> holds the record of \<open>room1:r1\<close>.\<close>

definition stored_world :: world where
  "stored_world =
     empty_world\<lparr>hashes := (\<lambda>key. if key = ''pnm:breakoutRoom:room1''
                                     then [(''room1:r1'', ''R30'')] else [])\<rparr>"

text \<open>
  The process tracks three rooms of one minute, one minute and two minutes; the clock of
  the deployment reads 1000, so the first two are past their deadline.
\<close>

definition tracking_world :: world where
  "tracking_world =
     empty_world\<lparr>roomsWithDuration :=
       [(''room1:r1'', \<lparr>rd_StartedAt = 939, rd_Duration = 1\<rparr>),
        (''room1:r2'', \<lparr>rd_StartedAt = 100, rd_Duration = 1\<rparr>),
        (''room1:r3'', \<lparr>rd_StartedAt = 939, rd_Duration = 2\<rparr>)]\<rparr>"

section \<open>Properties\<close>

subsection \<open>Shared facts\<close>

lemma trace_logcall: "trace (logcall c w) = trace w @ [c]"
  by (simp add: logcall_def)

lemma hashes_logcall: "hashes (logcall c w) = hashes w"
  by (simp add: logcall_def)

lemma since_self: "since w w = []"
  by (simp add: since_def)

text \<open>
  Whatever \<open>HGetAll\<close> answers, \<open>fetchBreakoutRooms\<close> never hands a room to its caller: a
  map value is turned into an error, and only the \<open>nil\<close> map, which has no entries, gets
  past the test.
\<close>

lemma fetchBreakoutRooms_no_room:
  "fst (fetchBreakoutRooms e roomId w) = Inr rooms \<Longrightarrow> rooms = []"
  by (auto simp: fetchBreakoutRooms_def HGetAll_def map_entries_def
           split: option.splits sum.splits prod.splits if_splits)

lemma fetchBreakoutRoom_world:
  "snd (fetchBreakoutRoom e roomId bid w) = logcall (Call_HGet (breakoutRoomKey @ roomId) bid) w"
  by (simp add: fetchBreakoutRoom_def HGet_def split: option.splits sum.splits)

lemma fetchBreakoutRoom_absent_nil:
  "redis_fault e (trace w) = None \<Longrightarrow> map_of (hashes w (breakoutRoomKey @ roomId)) bid = None \<Longrightarrow>
   fst (fetchBreakoutRoom e roomId bid w) = Inl RedisNil"
  by (simp add: fetchBreakoutRoom_def HGet_def split: option.splits sum.splits)

lemma canJoin_foldl:
  "foldl (\<lambda>c u. if user_Id u = userId then True else c) b users
     = (b \<or> userId \<in> user_Id ` set users)"
  by (induction users arbitrary: b) auto

lemma canJoin_iff: "canJoin users userId \<longleftrightarrow> userId \<in> user_Id ` set users"
  by (simp add: canJoin_def canJoin_foldl)

lemma end_calls_append: "end_calls (a @ b) = end_calls a @ end_calls b"
  by (induction a rule: end_calls.induct) simp_all

lemma end_failures_append: "end_failures (a @ b) = end_failures a @ end_failures b"
  by (induction a rule: end_failures.induct) simp_all

lemma clock_reads_append: "clock_reads (a @ b) = clock_reads a @ clock_reads b"
  by (induction a rule: clock_reads.induct) simp_all

lemma create_calls_append: "create_calls (a @ b) = create_calls a @ create_calls b"
  by (induction a rule: create_calls.induct) simp_all

lemma load_calls_append: "load_calls (a @ b) = load_calls a @ load_calls b"
  by (induction a rule: load_calls.induct) simp_all

subsection \<open>broadcastNotification\<close>

text \<open>
  C10. \<open>broadcastNotification\<close> returns an error exactly when the message does not
  serialise, and then it returns that error. When the message serialises to \<open>s\<close>, the
  function publishes \<open>s\<close> on \<open>plug-n-meet-websocket\<close> and returns \<open>nil\<close>, whatever the
  publish answered: the answer \<open>redis_fault e (trace w)\<close> ends up in the history only.
  This holds for every caller, so for the invitations and for the chat broadcasts.
\<close>

theorem broadcastNotification_fails_only_on_marshal:
  "(fst (broadcastNotification e roomId fromUserId toUserId broadcastMsg typeMsg mType isAdmin w)
      = Some err
    \<longleftrightarrow> marshal_ws e (notification_msg roomId fromUserId toUserId broadcastMsg typeMsg mType
                          isAdmin) = Inl err)
   \<and> (marshal_ws e (notification_msg roomId fromUserId toUserId broadcastMsg typeMsg mType
                       isAdmin) = Inr s
      \<longrightarrow> broadcastNotification e roomId fromUserId toUserId broadcastMsg typeMsg mType isAdmin w
          = (None, logcall (Call_Publish ''plug-n-meet-websocket'' s (redis_fault e (trace w))) w))"
  by (auto simp: broadcastNotification_def Publish_def split: sum.splits)

text \<open>An invitation whose publish is refused by Redis still returns \<open>nil\<close>.\<close>

theorem broadcastNotification_fails_only_on_marshal_witness:
  "marshal_ws (sample_env\<lparr>redis_fault := (\<lambda>tr. Some (External ''connection refused''))\<rparr>)
     (notification_msg ''room1'' ''user42'' ''u1'' ''room1:r1'' ''SYSTEM''
        ''JOIN_BREAKOUT_ROOM'' False) = Inr ''room1>u1''
   \<and> broadcastNotification
       (sample_env\<lparr>redis_fault := (\<lambda>tr. Some (External ''connection refused''))\<rparr>)
       ''room1'' ''user42'' ''u1'' ''room1:r1'' ''SYSTEM'' ''JOIN_BREAKOUT_ROOM'' False empty_world
     = (None, logcall (Call_Publish ''plug-n-meet-websocket'' ''room1>u1''
                         (Some (External ''connection refused''))) empty_world)"
proof -
  let ?e = "sample_env\<lparr>redis_fault := (\<lambda>tr. Some (External ''connection refused''))\<rparr>"
  have h: "marshal_ws ?e (notification_msg ''room1'' ''user42'' ''u1'' ''room1:r1'' ''SYSTEM''
             ''JOIN_BREAKOUT_ROOM'' False) = Inr ''room1>u1''"
    by (simp add: sample_env_def notification_msg_def)
  from broadcastNotification_fails_only_on_marshal
         [of ?e "''room1''" "''user42''" "''u1''" "''room1:r1''" "''SYSTEM''"
             "''JOIN_BREAKOUT_ROOM''" False empty_world _ "''room1>u1''"] h
  show ?thesis by simp
qed

subsection \<open>GetBreakoutRooms\<close>

text \<open>
  C1. \<open>GetBreakoutRooms\<close> should return the records stored in the parent's hash, and an
  empty result when there is none. The code tests \<open>rooms != nil\<close> where it means the
  opposite: with the record of \<open>room1:r1\<close> stored under \<open>room1\<close> the call returns the
  error \<open>no breakout room found\<close> instead of the record, and with nothing stored it
  returns the same error instead of an empty result.
\<close>

theorem GetBreakoutRooms_stored_record_is_error:
  "fst (GetBreakoutRooms sample_env ''room1'' stored_world)
     = Inl (ErrorsNew ''no breakout room found'')
   \<and> fst (GetBreakoutRooms sample_env ''room1'' empty_world)
     = Inl (ErrorsNew ''no breakout room found'')"
  by (simp add: GetBreakoutRooms_def fetchBreakoutRooms_def HGetAll_def sample_env_def
                stored_world_def empty_world_def)

subsection \<open>EndBreakoutRooms\<close>

text \<open>
  C6. \<open>EndBreakoutRooms\<close> should ask the Room Directory to end every breakout room of the
  parent and then delete the parent's hash. It gets its rooms from \<open>fetchBreakoutRooms\<close>,
  whose inverted test answers an error as soon as Redis answers: with the record of
  \<open>room1:r1\<close> stored, the call returns \<open>no breakout room found\<close>, its only call is the
  \<open>HGetAll\<close> (no room is ended, nothing is deleted), and the hash still holds the record.
\<close>

theorem EndBreakoutRooms_stored_record_is_error:
  "fst (EndBreakoutRooms sample_env ''room1'' stored_world)
     = Some (ErrorsNew ''no breakout room found'')
   \<and> since stored_world (snd (EndBreakoutRooms sample_env ''room1'' stored_world))
     = [Call_HGetAll ''pnm:breakoutRoom:room1'']
   \<and> hashes (snd (EndBreakoutRooms sample_env ''room1'' stored_world)) ''pnm:breakoutRoom:room1''
     = [(''room1:r1'', ''R30'')]"
  by (simp add: EndBreakoutRooms_def fetchBreakoutRooms_def HGetAll_def sample_env_def
                stored_world_def empty_world_def since_def logcall_def breakoutRoomKey_def)

subsection \<open>EndBreakoutRoom\<close>



subsection \<open>JoinBreakoutRoom\<close>

text \<open>
  C5. \<open>JoinBreakoutRoom\<close> fails when the record of the breakout room is absent: with the
  error of the Redis client for a missing field, or with \<open>not found\<close> when the field
  holds the empty string. When the record is there and decodes, a user id that is not the
  id of one of its users gets \<open>you can't join in this room\<close>, and nothing beyond the
  \<open>HGet\<close> has been called. A call that returns a token, or that has reached the token
  service at all, has found the record and the user id among its users.
\<close>

theorem JoinBreakoutRoom_invited_only:
  "(redis_fault e (trace w) = None
      \<and> map_of (hashes w (breakoutRoomKey @ jr_RoomId r)) (jr_BreakoutRoomId r) = None
      \<longrightarrow> fst (JoinBreakoutRoom e r w) = Inl RedisNil)
   \<and> (redis_fault e (trace w) = None
      \<and> map_of (hashes w (breakoutRoomKey @ jr_RoomId r)) (jr_BreakoutRoomId r) = Some []
      \<longrightarrow> fst (JoinBreakoutRoom e r w) = Inl (ErrorsNew ''not found''))
   \<and> (\<forall>room w1.
        fetchBreakoutRoom e (jr_RoomId r) (jr_BreakoutRoomId r) w = (Inr room, w1)
        \<and> jr_UserId r \<notin> user_Id ` set (room_Users room)
        \<longrightarrow> JoinBreakoutRoom e r w = (Inl (ErrorsNew ''you can't join in this room''), w1))
   \<and> ((\<exists>token. fst (JoinBreakoutRoom e r w) = Inr token)
        \<or> token_calls (since w (snd (JoinBreakoutRoom e r w))) \<noteq> []
      \<longrightarrow> (\<exists>room w1.
            fetchBreakoutRoom e (jr_RoomId r) (jr_BreakoutRoomId r) w = (Inr room, w1)
            \<and> jr_UserId r \<in> user_Id ` set (room_Users room)))"
proof (intro conjI impI allI)
  assume "redis_fault e (trace w) = None
      \<and> map_of (hashes w (breakoutRoomKey @ jr_RoomId r)) (jr_BreakoutRoomId r) = None"
  then show "fst (JoinBreakoutRoom e r w) = Inl RedisNil"
    by (simp add: JoinBreakoutRoom_def fetchBreakoutRoom_def HGet_def)
next
  assume "redis_fault e (trace w) = None
      \<and> map_of (hashes w (breakoutRoomKey @ jr_RoomId r)) (jr_BreakoutRoomId r) = Some []"
  then show "fst (JoinBreakoutRoom e r w) = Inl (ErrorsNew ''not found'')"
    by (simp add: JoinBreakoutRoom_def fetchBreakoutRoom_def HGet_def)
next
  fix room w1
  assume "fetchBreakoutRoom e (jr_RoomId r) (jr_BreakoutRoomId r) w = (Inr room, w1)
        \<and> jr_UserId r \<notin> user_Id ` set (room_Users room)"
  then show "JoinBreakoutRoom e r w = (Inl (ErrorsNew ''you can't join in this room''), w1)"
    by (simp add: JoinBreakoutRoom_def canJoin_iff)
next
  assume a: "(\<exists>token. fst (JoinBreakoutRoom e r w) = Inr token)
        \<or> token_calls (since w (snd (JoinBreakoutRoom e r w))) \<noteq> []"
  obtain res w1 where f: "fetchBreakoutRoom e (jr_RoomId r) (jr_BreakoutRoomId r) w = (res, w1)"
    by (cases "fetchBreakoutRoom e (jr_RoomId r) (jr_BreakoutRoomId r) w")
  have w1: "w1 = logcall (Call_HGet (breakoutRoomKey @ jr_RoomId r) (jr_BreakoutRoomId r)) w"
    using fetchBreakoutRoom_world[of e "jr_RoomId r" "jr_BreakoutRoomId r" w] f by simp
  show "\<exists>room w1.
            fetchBreakoutRoom e (jr_RoomId r) (jr_BreakoutRoomId r) w = (Inr room, w1)
            \<and> jr_UserId r \<in> user_Id ` set (room_Users room)"
  proof (cases res)
    case (Inl err)
    with a f w1 show ?thesis
      by (simp add: JoinBreakoutRoom_def since_def trace_logcall)
  next
    case (Inr room)
    show ?thesis
    proof (cases "canJoin (room_Users room) (jr_UserId r)")
      case True
      with f Inr show ?thesis by (simp add: canJoin_iff)
    next
      case False
      with a f w1 Inr show ?thesis
        by (simp add: JoinBreakoutRoom_def since_def trace_logcall)
    qed
  qed
qed

text \<open>
  \<open>u3\<close> is not invited to \<open>room1:r1\<close> and is turned away; \<open>room1:r9\<close> has no record.
\<close>

theorem JoinBreakoutRoom_invited_only_witness:
  "fetchBreakoutRoom sample_env ''room1'' ''room1:r1'' stored_world
     = (Inr sample_room, logcall (Call_HGet ''pnm:breakoutRoom:room1'' ''room1:r1'') stored_world)
   \<and> ''u3'' \<notin> user_Id ` set (room_Users sample_room)
   \<and> JoinBreakoutRoom sample_env
        \<lparr>jr_RoomId = ''room1'', jr_BreakoutRoomId = ''room1:r1'', jr_UserId = ''u3''\<rparr> stored_world
     = (Inl (ErrorsNew ''you can't join in this room''),
        logcall (Call_HGet ''pnm:breakoutRoom:room1'' ''room1:r1'') stored_world)
   \<and> map_of (hashes stored_world (breakoutRoomKey @ ''room1'')) ''room1:r9'' = None
   \<and> fst (JoinBreakoutRoom sample_env
        \<lparr>jr_RoomId = ''room1'', jr_BreakoutRoomId = ''room1:r9'', jr_UserId = ''u1''\<rparr> stored_world)
     = Inl RedisNil"
proof -
  let ?r = "\<lparr>jr_RoomId = ''room1'', jr_BreakoutRoomId = ''room1:r1'', jr_UserId = ''u3''\<rparr>"
  let ?q = "\<lparr>jr_RoomId = ''room1'', jr_BreakoutRoomId = ''room1:r9'', jr_UserId = ''u1''\<rparr>"
  let ?w1 = "logcall (Call_HGet ''pnm:breakoutRoom:room1'' ''room1:r1'') stored_world"
  have f: "fetchBreakoutRoom sample_env ''room1'' ''room1:r1'' stored_world = (Inr sample_room, ?w1)"
    by (simp add: fetchBreakoutRoom_def HGet_def sample_env_def stored_world_def empty_world_def
                  breakoutRoomKey_def)
  have n: "''u3'' \<notin> user_Id ` set (room_Users sample_room)"
    by (simp add: sample_room_def)
  have absent: "map_of (hashes stored_world (breakoutRoomKey @ ''room1'')) ''room1:r9'' = None"
    by (simp add: stored_world_def empty_world_def breakoutRoomKey_def)
  have nofault: "redis_fault sample_env (trace stored_world) = None"
    by (simp add: sample_env_def)
  from JoinBreakoutRoom_invited_only [where e = sample_env and r = ?r and w = stored_world] f n
  have a: "JoinBreakoutRoom sample_env ?r stored_world
             = (Inl (ErrorsNew ''you can't join in this room''), ?w1)"
    by simp
  from JoinBreakoutRoom_invited_only [where e = sample_env and r = ?q and w = stored_world] absent nofault
  have b: "fst (JoinBreakoutRoom sample_env ?q stored_world) = Inl RedisNil"
    by simp
  from f n a absent b show ?thesis by blast
qed

subsection \<open>IncreaseBreakoutRoomDuration\<close>

text \<open>
  C2. For a record that exists (\<open>fetchBreakoutRoom\<close> returns \<open>room\<close>) and values that
  serialise, \<open>IncreaseBreakoutRoomDuration\<close> makes three calls in this order: the \<open>HGet\<close>;
  the publish, on \<open>plug-n-meet-room-duration-checker\<close>, of the serialised event of type
  \<open>increaseDuration\<close> for the breakout room whose duration is the requested value itself;
  and the \<open>HSet\<close> of the serialised record \<open>room\<lparr>room_Duration := ir_Duration r\<rparr>\<close>, the
  old record with its duration replaced by the requested value. The result of the call is
  the result of the \<open>HSet\<close>: when it is \<open>nil\<close> the field holds the new record, otherwise
  the hashes are what they were.
\<close>

theorem IncreaseBreakoutRoomDuration_publish_then_overwrite:
  assumes "fetchBreakoutRoom e (ir_RoomId r) (ir_BreakoutRoomId r) w = (Inr room, w1)"
    and "marshal_checker e \<lparr>dc_Type = ''increaseDuration'', dc_RoomId = ir_BreakoutRoomId r,
                            dc_Duration = ir_Duration r\<rparr> = Inr ev"
    and "marshal_room e (room\<lparr>room_Duration := ir_Duration r\<rparr>) = Inr stored"
  shows "(\<exists>p. since w (snd (IncreaseBreakoutRoomDuration e r w))
            = [Call_HGet (breakoutRoomKey @ ir_RoomId r) (ir_BreakoutRoomId r),
               Call_Publish ''plug-n-meet-room-duration-checker'' ev p,
               Call_HSet (breakoutRoomKey @ ir_RoomId r) (ir_BreakoutRoomId r) stored
                 (fst (IncreaseBreakoutRoomDuration e r w))])
         \<and> (fst (IncreaseBreakoutRoomDuration e r w) = None \<longrightarrow>
              map_of (hashes (snd (IncreaseBreakoutRoomDuration e r w))
                        (breakoutRoomKey @ ir_RoomId r)) (ir_BreakoutRoomId r) = Some stored)
         \<and> (fst (IncreaseBreakoutRoomDuration e r w) \<noteq> None \<longrightarrow>
              hashes (snd (IncreaseBreakoutRoomDuration e r w)) = hashes w)"
proof -
  have w1: "w1 = logcall (Call_HGet (breakoutRoomKey @ ir_RoomId r) (ir_BreakoutRoomId r)) w"
    using fetchBreakoutRoom_world[of e "ir_RoomId r" "ir_BreakoutRoomId r" w] assms(1) by simp
  show ?thesis
    using assms
    by (auto simp: IncreaseBreakoutRoomDuration_def Let_def w1 Publish_def HSetExec_def since_def
                   trace_logcall hashes_logcall logcall_def update_conv'
             split: option.splits)
qed

text \<open>Raising the duration of \<open>room1:r1\<close> from 30 to 45.\<close>

theorem IncreaseBreakoutRoomDuration_publish_then_overwrite_witness:
  "fetchBreakoutRoom sample_env ''room1'' ''room1:r1'' stored_world
     = (Inr sample_room, logcall (Call_HGet ''pnm:breakoutRoom:room1'' ''room1:r1'') stored_world)
   \<and> marshal_checker sample_env
        \<lparr>dc_Type = ''increaseDuration'', dc_RoomId = ''room1:r1'', dc_Duration = 45\<rparr> = Inr ''D45''
   \<and> marshal_room sample_env (sample_room\<lparr>room_Duration := 45\<rparr>) = Inr ''R45''
   \<and> fst (IncreaseBreakoutRoomDuration sample_env
        \<lparr>ir_RoomId = ''room1'', ir_BreakoutRoomId = ''room1:r1'', ir_Duration = 45\<rparr> stored_world)
     = None
   \<and> (\<exists>p. since stored_world (snd (IncreaseBreakoutRoomDuration sample_env
        \<lparr>ir_RoomId = ''room1'', ir_BreakoutRoomId = ''room1:r1'', ir_Duration = 45\<rparr> stored_world))
       = [Call_HGet ''pnm:breakoutRoom:room1'' ''room1:r1'',
          Call_Publish ''plug-n-meet-room-duration-checker'' ''D45'' p,
          Call_HSet ''pnm:breakoutRoom:room1'' ''room1:r1'' ''R45'' None])
   \<and> map_of (hashes (snd (IncreaseBreakoutRoomDuration sample_env
        \<lparr>ir_RoomId = ''room1'', ir_BreakoutRoomId = ''room1:r1'', ir_Duration = 45\<rparr> stored_world))
          ''pnm:breakoutRoom:room1'') ''room1:r1'' = Some ''R45''"
proof -
  let ?r = "\<lparr>ir_RoomId = ''room1'', ir_BreakoutRoomId = ''room1:r1'', ir_Duration = 45\<rparr>"
  let ?w1 = "logcall (Call_HGet ''pnm:breakoutRoom:room1'' ''room1:r1'') stored_world"
  have f: "fetchBreakoutRoom sample_env (ir_RoomId ?r) (ir_BreakoutRoomId ?r) stored_world
             = (Inr sample_room, ?w1)"
    by (simp add: fetchBreakoutRoom_def HGet_def sample_env_def stored_world_def empty_world_def
                  breakoutRoomKey_def)
  have m1: "marshal_checker sample_env
              \<lparr>dc_Type = ''increaseDuration'', dc_RoomId = ir_BreakoutRoomId ?r,
               dc_Duration = ir_Duration ?r\<rparr> = Inr ''D45''"
    by (simp add: sample_env_def)
  have m2: "marshal_room sample_env (sample_room\<lparr>room_Duration := ir_Duration ?r\<rparr>) = Inr ''R45''"
    by (simp add: sample_env_def sample_room_def)
  have ok: "fst (IncreaseBreakoutRoomDuration sample_env ?r stored_world) = None"
    using f m1 m2
    by (simp add: IncreaseBreakoutRoomDuration_def Let_def HSetExec_def Publish_def
                  logcall_def sample_env_def)
  from IncreaseBreakoutRoomDuration_publish_then_overwrite [OF f m1 m2] ok f m1 m2 show ?thesis
    by (simp add: breakoutRoomKey_def)
qed

subsection \<open>checkRoomWithDuration\<close>

text \<open>
  The deadline is computed in \<open>int64\<close>. As long as \<open>startedAt + duration * 60\<close> fits
  into 64 bits, it is the number one expects.
\<close>

lemma signed_take_bit_63_add: "signed_take_bit 63 (a + signed_take_bit 63 (b::int)) = signed_take_bit 63 (a + b)"
  by (metis signed_take_bit_add signed_take_bit_signed_take_bit min.idem)

lemma deadline_no_overflow:
  "- (2 ^ 63) \<le> sint s + sint d * 60 \<Longrightarrow> sint s + sint d * 60 < 2 ^ 63 \<Longrightarrow>
   sint (s + d * 60 :: int64) = sint s + sint d * 60"
  by (simp add: sint_word_ariths signed_take_bit_63_add signed_take_bit_int_eq_self)

lemma check_room_effect:
  "\<exists>res. trace (check_room e ir w)
      = trace w @ Call_TimeNow (clock e (trace w))
                # (if sint (rd_StartedAt (snd ir) + rd_Duration (snd ir) * 60)
                       < sint (clock e (trace w))
                   then [Call_EndRoom (fst ir) res] else [])
    \<and> errlog (check_room e ir w)
      = errlog w @ (if sint (rd_StartedAt (snd ir) + rd_Duration (snd ir) * 60)
                        < sint (clock e (trace w))
                    then (case res of None \<Rightarrow> [] | Some err \<Rightarrow> [LogErr err]) else [])
    \<and> roomsWithDuration (check_room e ir w) = roomsWithDuration w
    \<and> hashes (check_room e ir w) = hashes w"
  by (auto simp: check_room_def time_Now_Unix_def EndRoom_def logcall_def log_Error_def Let_def
           split: option.splits)

lemma sweep_effect:
  "\<exists>cs. trace (sweep e rooms w) = trace w @ cs
     \<and> length (clock_reads cs) = length rooms
     \<and> end_calls cs
         = map (\<lambda>(ir, now). fst ir)
             (filter (\<lambda>(ir, now). sint (rd_StartedAt (snd ir) + rd_Duration (snd ir) * 60) < sint now)
                (zip rooms (clock_reads cs)))
     \<and> errlog (sweep e rooms w) = errlog w @ map LogErr (end_failures cs)
     \<and> roomsWithDuration (sweep e rooms w) = roomsWithDuration w"
proof (induction rooms arbitrary: w)
  case Nil
  then show ?case by simp
next
  case (Cons ir rooms)
  obtain res where step:
    "trace (check_room e ir w)
      = trace w @ Call_TimeNow (clock e (trace w))
                # (if sint (rd_StartedAt (snd ir) + rd_Duration (snd ir) * 60)
                       < sint (clock e (trace w))
                   then [Call_EndRoom (fst ir) res] else [])"
    "errlog (check_room e ir w)
      = errlog w @ (if sint (rd_StartedAt (snd ir) + rd_Duration (snd ir) * 60)
                        < sint (clock e (trace w))
                    then (case res of None \<Rightarrow> [] | Some err \<Rightarrow> [LogErr err]) else [])"
    "roomsWithDuration (check_room e ir w) = roomsWithDuration w"
    using check_room_effect [of e ir w] by blast
  obtain cs where rest:
    "trace (sweep e rooms (check_room e ir w)) = trace (check_room e ir w) @ cs"
    "length (clock_reads cs) = length rooms"
    "end_calls cs
         = map (\<lambda>(ir, now). fst ir)
             (filter (\<lambda>(ir, now). sint (rd_StartedAt (snd ir) + rd_Duration (snd ir) * 60) < sint now)
                (zip rooms (clock_reads cs)))"
    "errlog (sweep e rooms (check_room e ir w))
         = errlog (check_room e ir w) @ map LogErr (end_failures cs)"
    "roomsWithDuration (sweep e rooms (check_room e ir w))
         = roomsWithDuration (check_room e ir w)"
    using Cons.IH [of "check_room e ir w"] by blast
  let ?c1 = "Call_TimeNow (clock e (trace w))
                # (if sint (rd_StartedAt (snd ir) + rd_Duration (snd ir) * 60)
                       < sint (clock e (trace w))
                   then [Call_EndRoom (fst ir) res] else [])"
  show ?case
    apply (rule exI [of _ "?c1 @ cs"])
    using step rest
    by (cases res) (simp_all add: end_calls_append end_failures_append clock_reads_append)
qed

text \<open>
  C4. One sweep reads the clock once for every entry of the local map, whatever the Room
  Directory answers in between; it asks the Room Directory to end exactly the rooms whose
  deadline \<open>startedAt + duration * 60\<close> (in \<open>int64\<close>) lies before the reading of the
  clock made for that entry, in the order of the visit; every error the Room Directory
  answers is appended to the error log; and the local map is what it was.
\<close>

theorem checkRoomWithDuration_ends_expired:
  "let cs = since w (checkRoomWithDuration e w); nows = clock_reads cs in
     length nows = length (roomsWithDuration w)
   \<and> end_calls cs
       = map (\<lambda>(ir, now). fst ir)
           (filter (\<lambda>(ir, now). sint (rd_StartedAt (snd ir) + rd_Duration (snd ir) * 60) < sint now)
              (zip (roomsWithDuration w) nows))
   \<and> errlog (checkRoomWithDuration e w) = errlog w @ map LogErr (end_failures cs)
   \<and> roomsWithDuration (checkRoomWithDuration e w) = roomsWithDuration w"
proof -
  obtain cs where cs:
    "trace (sweep e (roomsWithDuration w) w) = trace w @ cs"
    "length (clock_reads cs) = length (roomsWithDuration w)"
    "end_calls cs
         = map (\<lambda>(ir, now). fst ir)
             (filter (\<lambda>(ir, now). sint (rd_StartedAt (snd ir) + rd_Duration (snd ir) * 60) < sint now)
                (zip (roomsWithDuration w) (clock_reads cs)))"
    "errlog (sweep e (roomsWithDuration w) w) = errlog w @ map LogErr (end_failures cs)"
    "roomsWithDuration (sweep e (roomsWithDuration w) w) = roomsWithDuration w"
    using sweep_effect [of e "roomsWithDuration w" w] by blast
  have "since w (checkRoomWithDuration e w) = cs"
    using cs(1) by (simp add: since_def checkRoomWithDuration_def)
  with cs show ?thesis
    by (simp add: Let_def checkRoomWithDuration_def)
qed

text \<open>
  Three tracked rooms, a clock that reads 1000 and a Room Directory that refuses every
  request: the two rooms past their deadline are both requested to end, both refusals
  are logged, and the third room is checked as well.
\<close>

lemma checkRoomWithDuration_refused:
  "end_calls (since tracking_world (checkRoomWithDuration refusing_env tracking_world))
     = [''room1:r1'', ''room1:r2'']
   \<and> clock_reads (since tracking_world (checkRoomWithDuration refusing_env tracking_world))
     = [1000, 1000, 1000]
   \<and> errlog (checkRoomWithDuration refusing_env tracking_world)
     = [LogErr (External ''room not active''), LogErr (External ''room not active'')]"
  by (simp add: checkRoomWithDuration_def check_room_def time_Now_Unix_def EndRoom_def
                tracking_world_def empty_world_def refusing_env_def sample_env_def
                logcall_def log_Error_def since_def Let_def)

subsection \<open>CreateBreakoutRooms\<close>

lemma broadcastNotification_effect:
  "\<exists>cs. trace (snd (broadcastNotification e a b c d f g h w)) = trace w @ cs
     \<and> create_calls cs = [] \<and> load_calls cs = []"
  by (simp add: broadcastNotification_def Publish_def trace_logcall split: sum.splits)

lemma notify_users_effect:
  "\<exists>cs. trace (notify_users e r b us w) = trace w @ cs
     \<and> create_calls cs = [] \<and> load_calls cs = []"
proof (induction us arbitrary: w)
  case Nil
  then show ?case by simp
next
  case (Cons u us)
  obtain res w1 where b: "broadcastNotification e (cr_RoomId r) (cr_RequestedUserId r) (user_Id u) b
             ''SYSTEM'' ''JOIN_BREAKOUT_ROOM'' False w = (res, w1)"
    by (cases "broadcastNotification e (cr_RoomId r) (cr_RequestedUserId r) (user_Id u) b
             ''SYSTEM'' ''JOIN_BREAKOUT_ROOM'' False w")
  obtain c1 where c1: "trace w1 = trace w @ c1" "create_calls c1 = []" "load_calls c1 = []"
    using broadcastNotification_effect
            [of e "cr_RoomId r" "cr_RequestedUserId r" "user_Id u" b "''SYSTEM''"
                "''JOIN_BREAKOUT_ROOM''" False w] b
    by auto
  show ?case
  proof (cases res)
    case None
    obtain cs where cs:
      "trace (notify_users e r b us w1) = trace w1 @ cs" "create_calls cs = []" "load_calls cs = []"
      using Cons.IH [of w1] by blast
    show ?thesis
      apply (rule exI [of _ "c1 @ cs"])
      using b None c1 cs by (simp add: create_calls_append load_calls_append)
  next
    case (Some err)
    obtain cs where cs:
      "trace (notify_users e r b us (log_Error (LogErr err) w1)) = trace w1 @ cs"
      "create_calls cs = []" "load_calls cs = []"
      using Cons.IH [of "log_Error (LogErr err) w1"] by (auto simp: log_Error_def)
    show ?thesis
      apply (rule exI [of _ "c1 @ cs"])
      using b Some c1 cs by (simp add: create_calls_append load_calls_append)
  qed
qed

lemma create_room_step_effect:
  "\<exists>cs. trace (create_room_step e r meta room w)
          = trace w @ cs
     \<and> create_calls cs = [\<lparr>rc_RoomId = cr_RoomId r @ '':'' @ room_Id room, rc_RoomMetadata = meta\<rparr>]
     \<and> load_calls cs = []"
proof -
  let ?req = "\<lparr>rc_RoomId = cr_RoomId r @ '':'' @ room_Id room, rc_RoomMetadata = meta\<rparr>"
  let ?ok = "fst (create_room e (trace w) ?req)"
  let ?w1 = "logcall (Call_CreateRoom ?req ?ok) w"
  let ?w2 = "\<lambda>s. logcall (Call_HSet (breakoutRoomKey @ cr_RoomId r)
                      (cr_RoomId r @ '':'' @ room_Id room) s None)
                    (?w1\<lparr>hashes := (hashes ?w1)(breakoutRoomKey @ cr_RoomId r :=
                        AList.update (cr_RoomId r @ '':'' @ room_Id room) s
                          (hashes ?w1 (breakoutRoomKey @ cr_RoomId r)))\<rparr>)"
  have n: "\<exists>cs. trace (notify_users e r (cr_RoomId r @ '':'' @ room_Id room) (room_Users room) (?w2 s))
             = trace w @ Call_CreateRoom ?req ?ok
                 # Call_HSet (breakoutRoomKey @ cr_RoomId r) (cr_RoomId r @ '':'' @ room_Id room) s None
                 # cs
            \<and> create_calls cs = [] \<and> load_calls cs = []" for s
    using notify_users_effect
            [of e r "cr_RoomId r @ '':'' @ room_Id room" "room_Users room" "?w2 s"]
    by (simp add: trace_logcall logcall_def)
  show ?thesis
  proof (cases ?ok)
    case False
    show ?thesis
      apply (rule exI [of _ "[Call_CreateRoom ?req ?ok]"])
      using False
      by (simp add: create_room_step_def CreateRoom_def Let_def log_Error_def trace_logcall
                    case_prod_beta)
  next
    case True
    show ?thesis
    proof (cases "marshal_room e (room\<lparr>room_Duration := cr_Duration r\<rparr>)")
      case (Inl err)
      show ?thesis
        apply (rule exI [of _ "[Call_CreateRoom ?req ?ok]"])
        using True Inl
        by (simp add: create_room_step_def CreateRoom_def Let_def log_Error_def trace_logcall
                      case_prod_beta)
    next
      case (Inr s)
      show ?thesis
      proof (cases "redis_fault e (trace ?w1)")
        case (Some err)
        show ?thesis
          apply (rule exI [of _ "[Call_CreateRoom ?req ?ok,
                 Call_HSet (breakoutRoomKey @ cr_RoomId r) (cr_RoomId r @ '':'' @ room_Id room) s
                   (Some err)]"])
          using True Inr Some
          by (simp add: create_room_step_def CreateRoom_def Let_def log_Error_def trace_logcall
                        HSetExec_def case_prod_beta)
      next
        case None
        obtain cs where cs:
          "trace (notify_users e r (cr_RoomId r @ '':'' @ room_Id room) (room_Users room) (?w2 s))
             = trace w @ Call_CreateRoom ?req ?ok
                 # Call_HSet (breakoutRoomKey @ cr_RoomId r) (cr_RoomId r @ '':'' @ room_Id room) s None
                 # cs"
          "create_calls cs = []" "load_calls cs = []"
          using n [of s] by blast
        have step: "create_room_step e r meta room w
            = notify_users e r (cr_RoomId r @ '':'' @ room_Id room) (room_Users room) (?w2 s)"
          using True Inr None
          by (simp add: create_room_step_def CreateRoom_def Let_def HSetExec_def case_prod_beta)
        show ?thesis
          unfolding step
          apply (rule exI [of _ "Call_CreateRoom ?req ?ok
                 # Call_HSet (breakoutRoomKey @ cr_RoomId r) (cr_RoomId r @ '':'' @ room_Id room) s None
                 # cs"])
          using cs by simp
      qed
    qed
  qed
qed

lemma create_rooms_loop_effect:
  "\<exists>cs. trace (create_rooms_loop e r meta rooms w) = trace w @ cs
     \<and> create_calls cs
         = map (\<lambda>room. \<lparr>rc_RoomId = cr_RoomId r @ '':'' @ room_Id room,
                         rc_RoomMetadata = meta\<lparr>md_RoomTitle := room_Title room\<rparr>\<rparr>) rooms
     \<and> load_calls cs = []"
proof (induction rooms arbitrary: meta w)
  case Nil
  then show ?case by simp
next
  case (Cons room rooms)
  let ?m = "meta\<lparr>md_RoomTitle := room_Title room\<rparr>"
  obtain c1 where c1:
    "trace (create_room_step e r ?m room w) = trace w @ c1"
    "create_calls c1 = [\<lparr>rc_RoomId = cr_RoomId r @ '':'' @ room_Id room, rc_RoomMetadata = ?m\<rparr>]"
    "load_calls c1 = []"
    using create_room_step_effect [of e r ?m room w] by blast
  obtain cs where cs:
    "trace (create_rooms_loop e r ?m rooms (create_room_step e r ?m room w))
       = trace (create_room_step e r ?m room w) @ cs"
    "create_calls cs
         = map (\<lambda>room. \<lparr>rc_RoomId = cr_RoomId r @ '':'' @ room_Id room,
                         rc_RoomMetadata = ?m\<lparr>md_RoomTitle := room_Title room\<rparr>\<rparr>) rooms"
    "load_calls cs = []"
    using Cons.IH [of ?m "create_room_step e r ?m room w"] by blast
  show ?case
    apply (rule exI [of _ "c1 @ cs"])
    using c1 cs by (simp add: create_calls_append load_calls_append)
qed

lemma CreateBreakoutRooms_loaded:
  assumes "load_room e (trace w) (cr_RoomId r) = Inr mainRoom"
    and "unmarshal_meta e (ri_Metadata mainRoom) = Inr meta"
  shows "CreateBreakoutRooms e r w =
     (let w2 = create_rooms_loop e r (child_template r meta) (cr_Rooms r)
                 (logcall (Call_LoadRoomInfo (cr_RoomId r)) w)
      in case marshal_meta e (set_breakout_active meta) of
           Inl err \<Rightarrow> (Some err, w2)
         | Inr s \<Rightarrow> (update_meta e (trace w2) (cr_RoomId r) s,
                     logcall (Call_UpdateRoomMetadata (cr_RoomId r) s
                                (update_meta e (trace w2) (cr_RoomId r) s)) w2))"
  using assms
  by (simp add: CreateBreakoutRooms_def LoadRoomInfoFromRedis_def UpdateRoomMetadata_def Let_def
           split: sum.splits option.splits)

lemma CreateBreakoutRooms_not_loaded:
  "load_room e (trace w) (cr_RoomId r) = Inl err \<Longrightarrow>
   CreateBreakoutRooms e r w = (Some err, logcall (Call_LoadRoomInfo (cr_RoomId r)) w)"
  "load_room e (trace w) (cr_RoomId r) = Inr mainRoom \<Longrightarrow>
   unmarshal_meta e (ri_Metadata mainRoom) = Inl err \<Longrightarrow>
   CreateBreakoutRooms e r w = (Some err, logcall (Call_LoadRoomInfo (cr_RoomId r)) w)"
  by (simp_all add: CreateBreakoutRooms_def LoadRoomInfoFromRedis_def)

text \<open>
  The loop of the source against the room-by-room account: a pass of the loop adds what
  \<open>room_effect\<close> says, and the loop what \<open>rooms_effect\<close> says.
\<close>

lemma child_req_title:
  "child_req r (template\<lparr>md_RoomTitle := t\<rparr>) room = child_req r template room"
  by (simp add: child_req_def)

lemma room_effect_title:
  "room_effect e r (template\<lparr>md_RoomTitle := t\<rparr>) room h = room_effect e r template room h"
  unfolding room_effect_def room_outcome_def child_req_title ..

lemma rooms_effect_title:
  "rooms_effect e r (template\<lparr>md_RoomTitle := t\<rparr>) rooms h = rooms_effect e r template rooms h"
  by (induction rooms arbitrary: h) (simp_all add: room_effect_title)

lemma store_fields_Nil: "store_fields [] hash = hash"
  by (simp add: store_fields_def)

lemma store_fields_append:
  "store_fields (a @ b) hash = store_fields b (store_fields a hash)"
  by (simp add: store_fields_def)

lemma store_fields_single: "store_fields [(f, v)] hash = AList.update f v hash"
  by (simp add: store_fields_def)

lemma notify_users_invitations:
  "trace (notify_users e r b us w) = trace w @ fst (invitations e r b us (trace w))
   \<and> errlog (notify_users e r b us w) = errlog w @ snd (invitations e r b us (trace w))
   \<and> hashes (notify_users e r b us w) = hashes w"
proof (induction us arbitrary: w)
  case Nil
  then show ?case by simp
next
  case (Cons u us)
  show ?case
  proof (cases "marshal_ws e (notification_msg (cr_RoomId r) (cr_RequestedUserId r) (user_Id u)
                           b ''SYSTEM'' ''JOIN_BREAKOUT_ROOM'' False)")
    case (Inl err)
    then show ?thesis
      using Cons.IH [of "log_Error (LogErr err) w"]
      by (simp add: broadcastNotification_def log_Error_def)
  next
    case (Inr s)
    then show ?thesis
      using Cons.IH [of "logcall (Call_Publish ''plug-n-meet-websocket'' s
                                    (redis_fault e (trace w))) w"]
      by (simp add: broadcastNotification_def Publish_def logcall_def)
  qed
qed

lemma create_room_step_room_effect:
  "trace (create_room_step e r (template\<lparr>md_RoomTitle := room_Title room\<rparr>) room w)
     = trace w @ fst (room_effect e r template room (trace w))
   \<and> errlog (create_room_step e r (template\<lparr>md_RoomTitle := room_Title room\<rparr>) room w)
     = errlog w @ fst (snd (room_effect e r template room (trace w)))
   \<and> hashes (create_room_step e r (template\<lparr>md_RoomTitle := room_Title room\<rparr>) room w)
     = (hashes w)
         (breakoutRoomKey @ cr_RoomId r :=
            store_fields (snd (snd (room_effect e r template room (trace w))))
              (hashes w (breakoutRoomKey @ cr_RoomId r)))"
proof -
  let ?req = "child_req r template room"
  show ?thesis
  proof (cases "fst (create_room e (trace w) ?req)")
    case False
    then show ?thesis
      by (simp add: create_room_step_def CreateRoom_def Let_def case_prod_beta room_effect_def
                    room_outcome_def child_req_def log_Error_def logcall_def store_fields_Nil)
  next
    case True
    show ?thesis
    proof (cases "marshal_room e (room\<lparr>room_Duration := cr_Duration r\<rparr>)")
      case (Inl err)
      with True show ?thesis
        by (simp add: create_room_step_def CreateRoom_def Let_def case_prod_beta room_effect_def
                      room_outcome_def child_req_def log_Error_def logcall_def store_fields_Nil)
    next
      case (Inr s)
      show ?thesis
      proof (cases "redis_fault e (trace w @ [Call_CreateRoom ?req True])")
        case (Some err)
        with True Inr show ?thesis
          by (simp add: create_room_step_def CreateRoom_def Let_def case_prod_beta
                        room_effect_def room_outcome_def child_req_def log_Error_def
                        logcall_def HSetExec_def store_fields_Nil)
      next
        case None
        with True Inr show ?thesis
          by (simp add: create_room_step_def CreateRoom_def Let_def case_prod_beta
                        room_effect_def room_outcome_def child_req_def logcall_def
                        HSetExec_def store_fields_single notify_users_invitations)
      qed
    qed
  qed
qed

lemma create_rooms_loop_rooms_effect:
  "trace (create_rooms_loop e r template rooms w)
     = trace w @ fst (rooms_effect e r template rooms (trace w))
   \<and> errlog (create_rooms_loop e r template rooms w)
     = errlog w @ fst (snd (rooms_effect e r template rooms (trace w)))
   \<and> hashes (create_rooms_loop e r template rooms w)
     = (hashes w)
         (breakoutRoomKey @ cr_RoomId r :=
            store_fields (snd (snd (rooms_effect e r template rooms (trace w))))
              (hashes w (breakoutRoomKey @ cr_RoomId r)))"
proof (induction rooms arbitrary: template w)
  case Nil
  then show ?case by (simp add: store_fields_Nil)
next
  case (Cons room rooms)
  let ?t = "template\<lparr>md_RoomTitle := room_Title room\<rparr>"
  let ?w1 = "create_room_step e r ?t room w"
  note step = create_room_step_room_effect
                [where e = e and r = r and template = template and room = room and w = w]
  note rest = Cons.IH [where template = ?t and w = ?w1]
  show ?case
    using step rest
    by (auto simp add: rooms_effect_title store_fields_append fun_eq_iff)
qed

lemma CreateBreakoutRooms_rooms_effect:
  assumes l: "load_room e (trace w) (cr_RoomId r) = Inr mainRoom"
    and u: "unmarshal_meta e (ri_Metadata mainRoom) = Inr meta"
  shows "since w (snd (CreateBreakoutRooms e r w))
           = Call_LoadRoomInfo (cr_RoomId r)
             # fst (rooms_effect e r (child_template r meta) (cr_Rooms r)
                      (trace w @ [Call_LoadRoomInfo (cr_RoomId r)]))
             @ (case marshal_meta e (set_breakout_active meta) of
                  Inl err \<Rightarrow> []
                | Inr s \<Rightarrow> [Call_UpdateRoomMetadata (cr_RoomId r) s
                              (fst (CreateBreakoutRooms e r w))])"
    and "errlog (snd (CreateBreakoutRooms e r w))
           = errlog w @ fst (snd (rooms_effect e r (child_template r meta) (cr_Rooms r)
                                    (trace w @ [Call_LoadRoomInfo (cr_RoomId r)])))"
    and "hashes (snd (CreateBreakoutRooms e r w))
           = (hashes w)
               (breakoutRoomKey @ cr_RoomId r :=
                  store_fields (snd (snd (rooms_effect e r (child_template r meta) (cr_Rooms r)
                                            (trace w @ [Call_LoadRoomInfo (cr_RoomId r)]))))
                    (hashes w (breakoutRoomKey @ cr_RoomId r)))"
    and "fst (CreateBreakoutRooms e r w)
           = (case marshal_meta e (set_breakout_active meta) of
                Inl err \<Rightarrow> Some err
              | Inr s \<Rightarrow>
                  update_meta e
                    (trace w @ Call_LoadRoomInfo (cr_RoomId r)
                       # fst (rooms_effect e r (child_template r meta) (cr_Rooms r)
                                (trace w @ [Call_LoadRoomInfo (cr_RoomId r)])))
                    (cr_RoomId r) s)"
proof -
  let ?w1 = "logcall (Call_LoadRoomInfo (cr_RoomId r)) w"
  note loop = create_rooms_loop_rooms_effect
                [where e = e and r = r and template = "child_template r meta"
                   and rooms = "cr_Rooms r" and w = ?w1]
  show "since w (snd (CreateBreakoutRooms e r w))
           = Call_LoadRoomInfo (cr_RoomId r)
             # fst (rooms_effect e r (child_template r meta) (cr_Rooms r)
                      (trace w @ [Call_LoadRoomInfo (cr_RoomId r)]))
             @ (case marshal_meta e (set_breakout_active meta) of
                  Inl err \<Rightarrow> []
                | Inr s \<Rightarrow> [Call_UpdateRoomMetadata (cr_RoomId r) s
                              (fst (CreateBreakoutRooms e r w))])"
    using loop
    by (cases "marshal_meta e (set_breakout_active meta)")
       (simp_all add: CreateBreakoutRooms_loaded [OF l u] Let_def since_def trace_logcall)
  show "errlog (snd (CreateBreakoutRooms e r w))
           = errlog w @ fst (snd (rooms_effect e r (child_template r meta) (cr_Rooms r)
                                    (trace w @ [Call_LoadRoomInfo (cr_RoomId r)])))"
    using loop
    by (cases "marshal_meta e (set_breakout_active meta)")
       (simp_all add: CreateBreakoutRooms_loaded [OF l u] Let_def logcall_def)
  show "hashes (snd (CreateBreakoutRooms e r w))
           = (hashes w)
               (breakoutRoomKey @ cr_RoomId r :=
                  store_fields (snd (snd (rooms_effect e r (child_template r meta) (cr_Rooms r)
                                            (trace w @ [Call_LoadRoomInfo (cr_RoomId r)]))))
                    (hashes w (breakoutRoomKey @ cr_RoomId r)))"
    using loop
    by (cases "marshal_meta e (set_breakout_active meta)")
       (simp_all add: CreateBreakoutRooms_loaded [OF l u] Let_def logcall_def)
  show "fst (CreateBreakoutRooms e r w)
           = (case marshal_meta e (set_breakout_active meta) of
                Inl err \<Rightarrow> Some err
              | Inr s \<Rightarrow>
                  update_meta e
                    (trace w @ Call_LoadRoomInfo (cr_RoomId r)
                       # fst (rooms_effect e r (child_template r meta) (cr_Rooms r)
                                (trace w @ [Call_LoadRoomInfo (cr_RoomId r)])))
                    (cr_RoomId r) s)"
    using loop
    by (cases "marshal_meta e (set_breakout_active meta)")
       (simp_all add: CreateBreakoutRooms_loaded [OF l u] Let_def trace_logcall)
qed

text \<open>Three runs of the concrete deployment.\<close>

lemmas sample_defs =
  sample_env_def edited_env_def sample_req_def sample_room_def sample_meta_def edited_meta_def
  empty_world_def stored_world_def

lemmas run_defs =
  CreateBreakoutRooms_def LoadRoomInfoFromRedis_def UpdateRoomMetadata_def CreateRoom_def
  create_room_step_def HSetExec_def broadcastNotification_def notification_msg_def Publish_def
  child_template_def set_breakout_active_def logcall_def log_Error_def breakoutRoomKey_def
  since_def Let_def

lemma run_sample:
  "CreateBreakoutRooms edited_env sample_req empty_world
   = (None,
      \<lparr>trace =
         [Call_LoadRoomInfo ''room1'',
          Call_CreateRoom
            \<lparr>rc_RoomId = ''room1:r1'',
             rc_RoomMetadata = (child_template sample_req sample_meta)\<lparr>md_RoomTitle := ''Team A''\<rparr>\<rparr>
            True,
          Call_HSet ''pnm:breakoutRoom:room1'' ''room1:r1'' ''R30'' None,
          Call_Publish ''plug-n-meet-websocket'' ''room1>u1'' None,
          Call_Publish ''plug-n-meet-websocket'' ''room1>u2'' None,
          Call_UpdateRoomMetadata ''room1'' ''M1'' None],
       hashes = (\<lambda>key. if key = ''pnm:breakoutRoom:room1'' then [(''room1:r1'', ''R30'')] else []),
       errlog = [], roomsWithDuration = []\<rparr>)"
  by (simp add: run_defs sample_defs fun_eq_iff)

lemma run_readonly:
  "CreateBreakoutRooms readonly_env sample_req empty_world
   = (Some (External ''update failed''),
      \<lparr>trace =
         [Call_LoadRoomInfo ''room1'',
          Call_CreateRoom
            \<lparr>rc_RoomId = ''room1:r1'',
             rc_RoomMetadata = (child_template sample_req sample_meta)\<lparr>md_RoomTitle := ''Team A''\<rparr>\<rparr>
            True,
          Call_HSet ''pnm:breakoutRoom:room1'' ''room1:r1'' ''R30'' None,
          Call_Publish ''plug-n-meet-websocket'' ''room1>u1'' None,
          Call_Publish ''plug-n-meet-websocket'' ''room1>u2'' None,
          Call_UpdateRoomMetadata ''room1'' ''M1'' (Some (External ''update failed''))],
       hashes = (\<lambda>key. if key = ''pnm:breakoutRoom:room1'' then [(''room1:r1'', ''R30'')] else []),
       errlog = [], roomsWithDuration = []\<rparr>)"
  by (simp add: run_defs sample_defs readonly_env_def fun_eq_iff)

text \<open>The four rooms of the faulty deployment, one by one.\<close>

lemma faulty_create:
  "create_room faulty_env h (child_req four_rooms_req t room)
     = (if room_Id room = ''r1'' then (False, ''room already exists'') else (True, ''success''))"
  by (simp add: faulty_env_def child_req_def four_rooms_req_def)

lemma faulty_fault:
  "redis_fault faulty_env h
     = (if length h = 4 then Some (External ''connection refused'') else None)"
  by (simp add: faulty_env_def)

lemma faulty_marshal_room:
  "marshal_room faulty_env (odd_room\<lparr>room_Duration := cr_Duration four_rooms_req\<rparr>)
     = Inl (External ''json: unsupported value'')"
  "marshal_room faulty_env
     (second_room\<lparr>room_Duration := cr_Duration four_rooms_req\<rparr>)
     = Inr ''S30''"
  "marshal_room faulty_env
     (third_room\<lparr>room_Duration := cr_Duration four_rooms_req\<rparr>)
     = Inr ''T30''"
  by (simp_all add: faulty_env_def sample_env_def four_rooms_req_def sample_room_def odd_room_def
                    second_room_def third_room_def)

lemma faulty_marshal_ws:
  "marshal_ws faulty_env m = Inr (ws_RoomId m @ ''>'' @ dm_To (ws_Payload m))"
  by (simp add: faulty_env_def sample_env_def)

lemma sample_room_fields:
  "room_Id sample_room = ''r1''" "room_Id odd_room = ''r0''"
  "room_Id second_room = ''r2''" "room_Id third_room = ''r3''"
  "room_Users third_room = [\<lparr>user_Id = ''u4'', user_Name = ''Di''\<rparr>]"
  "cr_RoomId four_rooms_req = ''room1''" "cr_RequestedUserId four_rooms_req = ''user42''"
  by (simp_all add: sample_room_def odd_room_def second_room_def third_room_def
                    four_rooms_req_def)

lemma faulty_first:
  "room_effect faulty_env four_rooms_req t (sample_room\<lparr>room_Duration := 0\<rparr>) h
     = ([Call_CreateRoom (child_req four_rooms_req t (sample_room\<lparr>room_Duration := 0\<rparr>)) False],
        [LogMsg ''room already exists''], [])"
  by (simp add: room_effect_def room_outcome_def faulty_create sample_room_fields)

lemma faulty_second:
  "room_effect faulty_env four_rooms_req t odd_room h
     = ([Call_CreateRoom (child_req four_rooms_req t odd_room) True],
        [LogErr (External ''json: unsupported value'')], [])"
  by (simp add: room_effect_def room_outcome_def faulty_create faulty_marshal_room
                sample_room_fields)

lemma faulty_third:
  "length h = 3 \<Longrightarrow>
   room_effect faulty_env four_rooms_req t (second_room\<lparr>room_Duration := 0\<rparr>) h
     = ([Call_CreateRoom (child_req four_rooms_req t (second_room\<lparr>room_Duration := 0\<rparr>)) True,
         Call_HSet ''pnm:breakoutRoom:room1'' ''room1:r2'' ''S30''
           (Some (External ''connection refused''))],
        [LogErr (External ''connection refused'')], [])"
  by (simp add: room_effect_def room_outcome_def faulty_create faulty_marshal_room faulty_fault
                sample_room_fields breakoutRoomKey_def)

lemma faulty_fourth:
  "length h = 5 \<Longrightarrow>
   room_effect faulty_env four_rooms_req t (third_room\<lparr>room_Duration := 0\<rparr>) h
     = ([Call_CreateRoom (child_req four_rooms_req t (third_room\<lparr>room_Duration := 0\<rparr>)) True,
         Call_HSet ''pnm:breakoutRoom:room1'' ''room1:r3'' ''T30'' None,
         Call_Publish ''plug-n-meet-websocket'' ''room1>u4'' None],
        [], [(''room1:r3'', ''T30'')])"
  by (simp add: room_effect_def room_outcome_def faulty_create faulty_marshal_room faulty_fault
                faulty_marshal_ws sample_room_fields breakoutRoomKey_def notification_msg_def)

lemma faulty_rooms_effect:
  "rooms_effect faulty_env four_rooms_req t (cr_Rooms four_rooms_req) [Call_LoadRoomInfo ''room1'']
   = ([Call_CreateRoom (child_req four_rooms_req t (sample_room\<lparr>room_Duration := 0\<rparr>)) False,
       Call_CreateRoom (child_req four_rooms_req t odd_room) True,
       Call_CreateRoom (child_req four_rooms_req t (second_room\<lparr>room_Duration := 0\<rparr>)) True,
       Call_HSet ''pnm:breakoutRoom:room1'' ''room1:r2'' ''S30''
         (Some (External ''connection refused'')),
       Call_CreateRoom (child_req four_rooms_req t (third_room\<lparr>room_Duration := 0\<rparr>)) True,
       Call_HSet ''pnm:breakoutRoom:room1'' ''room1:r3'' ''T30'' None,
       Call_Publish ''plug-n-meet-websocket'' ''room1>u4'' None],
      [LogMsg ''room already exists'', LogErr (External ''json: unsupported value''),
       LogErr (External ''connection refused'')],
      [(''room1:r3'', ''T30'')])"
proof -
  have rooms: "cr_Rooms four_rooms_req
                 = [sample_room\<lparr>room_Duration := 0\<rparr>, odd_room,
                    second_room\<lparr>room_Duration := 0\<rparr>, third_room\<lparr>room_Duration := 0\<rparr>]"
    by (simp add: four_rooms_req_def)
  show ?thesis
    unfolding rooms
    by (simp add: faulty_first faulty_second faulty_third faulty_fourth)
qed

text \<open>
  C3. An error returned by \<open>CreateBreakoutRooms\<close> is the error of the load of the parent
  room, or of the deserialisation of its metadata, or of the final update of the parent's
  metadata: of the serialisation of the metadata to write, or of the Room Directory, whose
  refused update is then the last call made. Once the parent is loaded and decoded, the
  call does for the rooms of the request exactly what the partial-failure policy says,
  room after room: a child room is requested for every room, in order and whatever
  happened to the rooms before it; the calls made are the load, then for every room the
  calls of its outcome (a rejected room: the request alone; a record that does not
  serialise: the request alone; a refused \<open>HSet\<close>: the request and the \<open>HSet\<close>; a stored
  room: the request, the \<open>HSet\<close> and the invitations), then the final update; the log
  gains one entry for every room that was skipped and for every invitation that did not
  serialise; the parent's hash gains the records of the stored rooms and nothing else;
  and the result of the call is the answer to the final update, whatever the outcomes
  of the rooms were.
\<close>

theorem CreateBreakoutRooms_partial_failure:
  "(\<forall>err. fst (CreateBreakoutRooms e r w) = Some err \<longrightarrow>
       load_room e (trace w) (cr_RoomId r) = Inl err
     \<or> (\<exists>mainRoom. load_room e (trace w) (cr_RoomId r) = Inr mainRoom
          \<and> (unmarshal_meta e (ri_Metadata mainRoom) = Inl err
             \<or> (\<exists>origMeta. unmarshal_meta e (ri_Metadata mainRoom) = Inr origMeta
                  \<and> (marshal_meta e (set_breakout_active origMeta) = Inl err
                     \<or> (\<exists>s. marshal_meta e (set_breakout_active origMeta) = Inr s
                          \<and> last (trace (snd (CreateBreakoutRooms e r w)))
                              = Call_UpdateRoomMetadata (cr_RoomId r) s (Some err)))))))
   \<and> (\<forall>mainRoom meta. load_room e (trace w) (cr_RoomId r) = Inr mainRoom
          \<and> unmarshal_meta e (ri_Metadata mainRoom) = Inr meta
        \<longrightarrow> create_calls (since w (snd (CreateBreakoutRooms e r w)))
            = map (\<lambda>room. \<lparr>rc_RoomId = cr_RoomId r @ '':'' @ room_Id room,
                            rc_RoomMetadata =
                              (child_template r meta)\<lparr>md_RoomTitle := room_Title room\<rparr>\<rparr>)
                (cr_Rooms r)
          \<and> since w (snd (CreateBreakoutRooms e r w))
            = Call_LoadRoomInfo (cr_RoomId r)
              # fst (rooms_effect e r (child_template r meta) (cr_Rooms r)
                       (trace w @ [Call_LoadRoomInfo (cr_RoomId r)]))
              @ (case marshal_meta e (set_breakout_active meta) of
                   Inl err \<Rightarrow> []
                 | Inr s \<Rightarrow> [Call_UpdateRoomMetadata (cr_RoomId r) s
                               (fst (CreateBreakoutRooms e r w))])
          \<and> errlog (snd (CreateBreakoutRooms e r w))
            = errlog w @ fst (snd (rooms_effect e r (child_template r meta) (cr_Rooms r)
                                     (trace w @ [Call_LoadRoomInfo (cr_RoomId r)])))
          \<and> hashes (snd (CreateBreakoutRooms e r w))
            = (hashes w)
                (breakoutRoomKey @ cr_RoomId r :=
                   store_fields (snd (snd (rooms_effect e r (child_template r meta) (cr_Rooms r)
                                             (trace w @ [Call_LoadRoomInfo (cr_RoomId r)]))))
                     (hashes w (breakoutRoomKey @ cr_RoomId r)))
          \<and> fst (CreateBreakoutRooms e r w)
            = (case marshal_meta e (set_breakout_active meta) of
                 Inl err \<Rightarrow> Some err
               | Inr s \<Rightarrow>
                   update_meta e
                     (trace w @ Call_LoadRoomInfo (cr_RoomId r)
                        # fst (rooms_effect e r (child_template r meta) (cr_Rooms r)
                                 (trace w @ [Call_LoadRoomInfo (cr_RoomId r)])))
                     (cr_RoomId r) s))"
proof (intro conjI allI impI)
  fix err
  assume a: "fst (CreateBreakoutRooms e r w) = Some err"
  show "load_room e (trace w) (cr_RoomId r) = Inl err
     \<or> (\<exists>mainRoom. load_room e (trace w) (cr_RoomId r) = Inr mainRoom
          \<and> (unmarshal_meta e (ri_Metadata mainRoom) = Inl err
             \<or> (\<exists>origMeta. unmarshal_meta e (ri_Metadata mainRoom) = Inr origMeta
                  \<and> (marshal_meta e (set_breakout_active origMeta) = Inl err
                     \<or> (\<exists>s. marshal_meta e (set_breakout_active origMeta) = Inr s
                          \<and> last (trace (snd (CreateBreakoutRooms e r w)))
                              = Call_UpdateRoomMetadata (cr_RoomId r) s (Some err))))))"
  proof (cases "load_room e (trace w) (cr_RoomId r)")
    case (Inl x)
    with a show ?thesis by (simp add: CreateBreakoutRooms_not_loaded(1))
  next
    case (Inr mainRoom)
    show ?thesis
    proof (cases "unmarshal_meta e (ri_Metadata mainRoom)")
      case (Inl x)
      with a Inr show ?thesis by (simp add: CreateBreakoutRooms_not_loaded(2))
    next
      case m: (Inr meta)
      show ?thesis
        using a Inr m
        by (cases "marshal_meta e (set_breakout_active meta)")
           (simp_all add: CreateBreakoutRooms_loaded [OF Inr m] Let_def trace_logcall)
    qed
  qed
next
  fix mainRoom meta
  assume a: "load_room e (trace w) (cr_RoomId r) = Inr mainRoom
          \<and> unmarshal_meta e (ri_Metadata mainRoom) = Inr meta"
  let ?w1 = "logcall (Call_LoadRoomInfo (cr_RoomId r)) w"
  obtain cs where cs:
    "trace (create_rooms_loop e r (child_template r meta) (cr_Rooms r) ?w1) = trace ?w1 @ cs"
    "create_calls cs
       = map (\<lambda>room. \<lparr>rc_RoomId = cr_RoomId r @ '':'' @ room_Id room,
                       rc_RoomMetadata = (child_template r meta)\<lparr>md_RoomTitle := room_Title room\<rparr>\<rparr>)
           (cr_Rooms r)"
    using create_rooms_loop_effect [of e r "child_template r meta" "cr_Rooms r" ?w1] by blast
  show "create_calls (since w (snd (CreateBreakoutRooms e r w)))
            = map (\<lambda>room. \<lparr>rc_RoomId = cr_RoomId r @ '':'' @ room_Id room,
                            rc_RoomMetadata =
                              (child_template r meta)\<lparr>md_RoomTitle := room_Title room\<rparr>\<rparr>)
                (cr_Rooms r)"
    using a cs
    by (cases "marshal_meta e (set_breakout_active meta)")
       (simp_all add: CreateBreakoutRooms_loaded [of e w r mainRoom meta] Let_def since_def
                      trace_logcall create_calls_append)
next
  fix mainRoom meta
  assume a: "load_room e (trace w) (cr_RoomId r) = Inr mainRoom
          \<and> unmarshal_meta e (ri_Metadata mainRoom) = Inr meta"
  then show "since w (snd (CreateBreakoutRooms e r w))
            = Call_LoadRoomInfo (cr_RoomId r)
              # fst (rooms_effect e r (child_template r meta) (cr_Rooms r)
                       (trace w @ [Call_LoadRoomInfo (cr_RoomId r)]))
              @ (case marshal_meta e (set_breakout_active meta) of
                   Inl err \<Rightarrow> []
                 | Inr s \<Rightarrow> [Call_UpdateRoomMetadata (cr_RoomId r) s
                               (fst (CreateBreakoutRooms e r w))])"
    by (simp add: CreateBreakoutRooms_rooms_effect(1))
next
  fix mainRoom meta
  assume a: "load_room e (trace w) (cr_RoomId r) = Inr mainRoom
          \<and> unmarshal_meta e (ri_Metadata mainRoom) = Inr meta"
  then show "errlog (snd (CreateBreakoutRooms e r w))
            = errlog w @ fst (snd (rooms_effect e r (child_template r meta) (cr_Rooms r)
                                     (trace w @ [Call_LoadRoomInfo (cr_RoomId r)])))"
    by (simp add: CreateBreakoutRooms_rooms_effect(2))
next
  fix mainRoom meta
  assume a: "load_room e (trace w) (cr_RoomId r) = Inr mainRoom
          \<and> unmarshal_meta e (ri_Metadata mainRoom) = Inr meta"
  then show "hashes (snd (CreateBreakoutRooms e r w))
            = (hashes w)
                (breakoutRoomKey @ cr_RoomId r :=
                   store_fields (snd (snd (rooms_effect e r (child_template r meta) (cr_Rooms r)
                                             (trace w @ [Call_LoadRoomInfo (cr_RoomId r)]))))
                     (hashes w (breakoutRoomKey @ cr_RoomId r)))"
    by (simp add: CreateBreakoutRooms_rooms_effect(3))
next
  fix mainRoom meta
  assume a: "load_room e (trace w) (cr_RoomId r) = Inr mainRoom
          \<and> unmarshal_meta e (ri_Metadata mainRoom) = Inr meta"
  then show "fst (CreateBreakoutRooms e r w)
            = (case marshal_meta e (set_breakout_active meta) of
                 Inl err \<Rightarrow> Some err
               | Inr s \<Rightarrow>
                   update_meta e
                     (trace w @ Call_LoadRoomInfo (cr_RoomId r)
                        # fst (rooms_effect e r (child_template r meta) (cr_Rooms r)
                                 (trace w @ [Call_LoadRoomInfo (cr_RoomId r)])))
                     (cr_RoomId r) s)"
    using CreateBreakoutRooms_rooms_effect(4) [of e w r mainRoom meta] by simp
qed

text \<open>
  A request for four rooms in the faulty deployment: the first room is rejected, the
  record of the second does not serialise, the \<open>HSet\<close> of the third is refused, and the
  fourth is requested, stored and its user invited all the same; the call returns
  \<open>nil\<close>, three entries are logged and the hash holds the fourth room only. With a Room
  Directory that refuses the final update, the call returns its error.
\<close>

theorem CreateBreakoutRooms_partial_failure_witness:
  "load_room faulty_env (trace empty_world) (cr_RoomId four_rooms_req)
     = Inr \<lparr>ri_Metadata = ''M0''\<rparr>
   \<and> unmarshal_meta faulty_env ''M0'' = Inr sample_meta
   \<and> fst (CreateBreakoutRooms faulty_env four_rooms_req empty_world) = None
   \<and> since empty_world (snd (CreateBreakoutRooms faulty_env four_rooms_req empty_world))
     = [Call_LoadRoomInfo ''room1'',
        Call_CreateRoom (child_req four_rooms_req (child_template four_rooms_req sample_meta)
                          (sample_room\<lparr>room_Duration := 0\<rparr>)) False,
        Call_CreateRoom (child_req four_rooms_req (child_template four_rooms_req sample_meta)
                          odd_room) True,
        Call_CreateRoom (child_req four_rooms_req (child_template four_rooms_req sample_meta)
                          (second_room\<lparr>room_Duration := 0\<rparr>)) True,
        Call_HSet ''pnm:breakoutRoom:room1'' ''room1:r2'' ''S30''
          (Some (External ''connection refused'')),
        Call_CreateRoom (child_req four_rooms_req (child_template four_rooms_req sample_meta)
                          (third_room\<lparr>room_Duration := 0\<rparr>)) True,
        Call_HSet ''pnm:breakoutRoom:room1'' ''room1:r3'' ''T30'' None,
        Call_Publish ''plug-n-meet-websocket'' ''room1>u4'' None,
        Call_UpdateRoomMetadata ''room1'' ''M1'' None]
   \<and> errlog (snd (CreateBreakoutRooms faulty_env four_rooms_req empty_world))
     = [LogMsg ''room already exists'', LogErr (External ''json: unsupported value''),
        LogErr (External ''connection refused'')]
   \<and> hashes (snd (CreateBreakoutRooms faulty_env four_rooms_req empty_world))
        ''pnm:breakoutRoom:room1''
     = [(''room1:r3'', ''T30'')]
   \<and> fst (CreateBreakoutRooms readonly_env sample_req empty_world)
     = Some (External ''update failed'')
   \<and> last (trace (snd (CreateBreakoutRooms readonly_env sample_req empty_world)))
     = Call_UpdateRoomMetadata ''room1'' ''M1'' (Some (External ''update failed''))"
proof -
  have l: "load_room faulty_env (trace empty_world) (cr_RoomId four_rooms_req)
             = Inr \<lparr>ri_Metadata = ''M0''\<rparr>"
    by (simp add: faulty_env_def sample_env_def four_rooms_req_def)
  have u: "unmarshal_meta faulty_env (ri_Metadata \<lparr>ri_Metadata = ''M0''\<rparr>) = Inr sample_meta"
    by (simp add: faulty_env_def sample_env_def)
  have m: "marshal_meta faulty_env (set_breakout_active sample_meta) = Inr ''M1''"
    by (simp add: faulty_env_def sample_env_def sample_meta_def set_breakout_active_def)
  have upd: "update_meta faulty_env h i s = None" for h i s
    by (simp add: faulty_env_def sample_env_def)
  have t: "trace empty_world = []" "errlog empty_world = []"
          "hashes empty_world ''pnm:breakoutRoom:room1'' = []"
    by (simp_all add: empty_world_def)
  note run = CreateBreakoutRooms_partial_failure
               [where e = faulty_env and r = four_rooms_req and w = empty_world,
                THEN conjunct2, rule_format, of "\<lparr>ri_Metadata = ''M0''\<rparr>" sample_meta,
                OF conjI [OF l u]]
  have ok: "fst (CreateBreakoutRooms faulty_env four_rooms_req empty_world) = None"
    using run m by (simp add: upd)
  have calls: "since empty_world (snd (CreateBreakoutRooms faulty_env four_rooms_req empty_world))
     = [Call_LoadRoomInfo ''room1'',
        Call_CreateRoom (child_req four_rooms_req (child_template four_rooms_req sample_meta)
                          (sample_room\<lparr>room_Duration := 0\<rparr>)) False,
        Call_CreateRoom (child_req four_rooms_req (child_template four_rooms_req sample_meta)
                          odd_room) True,
        Call_CreateRoom (child_req four_rooms_req (child_template four_rooms_req sample_meta)
                          (second_room\<lparr>room_Duration := 0\<rparr>)) True,
        Call_HSet ''pnm:breakoutRoom:room1'' ''room1:r2'' ''S30''
          (Some (External ''connection refused'')),
        Call_CreateRoom (child_req four_rooms_req (child_template four_rooms_req sample_meta)
                          (third_room\<lparr>room_Duration := 0\<rparr>)) True,
        Call_HSet ''pnm:breakoutRoom:room1'' ''room1:r3'' ''T30'' None,
        Call_Publish ''plug-n-meet-websocket'' ''room1>u4'' None,
        Call_UpdateRoomMetadata ''room1'' ''M1'' None]"
    using run m ok
    by (simp add: t faulty_rooms_effect sample_room_fields)
  have logs: "errlog (snd (CreateBreakoutRooms faulty_env four_rooms_req empty_world))
     = [LogMsg ''room already exists'', LogErr (External ''json: unsupported value''),
        LogErr (External ''connection refused'')]"
    using run by (simp add: t faulty_rooms_effect sample_room_fields)
  have stored: "hashes (snd (CreateBreakoutRooms faulty_env four_rooms_req empty_world))
        ''pnm:breakoutRoom:room1'' = [(''room1:r3'', ''T30'')]"
    using run
    by (simp add: t faulty_rooms_effect sample_room_fields store_fields_def breakoutRoomKey_def)
  have failed: "fst (CreateBreakoutRooms readonly_env sample_req empty_world)
                  = Some (External ''update failed'')"
    by (simp add: run_readonly)
  have lr: "load_room readonly_env (trace empty_world) (cr_RoomId sample_req)
              = Inr \<lparr>ri_Metadata = ''M0''\<rparr>"
       "unmarshal_meta readonly_env ''M0'' = Inr sample_meta"
       "marshal_meta readonly_env (set_breakout_active sample_meta) = Inr ''M1''"
    by (simp_all add: readonly_env_def sample_defs set_breakout_active_def)
  from CreateBreakoutRooms_partial_failure
         [where e = readonly_env and r = sample_req and w = empty_world] failed lr
  have b: "last (trace (snd (CreateBreakoutRooms readonly_env sample_req empty_world)))
       = Call_UpdateRoomMetadata ''room1'' ''M1'' (Some (External ''update failed''))"
    by (auto simp: sample_req_def)
  from l u ok calls logs stored failed b show ?thesis by simp
qed

text \<open>
  C8. When \<open>CreateBreakoutRooms\<close> returns \<open>nil\<close>, its last call is an update of the
  parent's metadata that the Room Directory accepted, and what it wrote is the
  serialisation of a metadata value whose \<open>breakoutRoomFeatures.isActive\<close> is true. This
  holds whether or not a child room was created.
\<close>

theorem CreateBreakoutRooms_success_sets_active:
  "fst (CreateBreakoutRooms e r w) = None \<longrightarrow>
     (\<exists>mainRoom origMeta s.
        load_room e (trace w) (cr_RoomId r) = Inr mainRoom
      \<and> unmarshal_meta e (ri_Metadata mainRoom) = Inr origMeta
      \<and> marshal_meta e (set_breakout_active origMeta) = Inr s
      \<and> last (trace (snd (CreateBreakoutRooms e r w)))
          = Call_UpdateRoomMetadata (cr_RoomId r) s None
      \<and> brf_IsActive (f_BreakoutRoomFeatures (md_Features (set_breakout_active origMeta))))"
proof
  assume a: "fst (CreateBreakoutRooms e r w) = None"
  show "\<exists>mainRoom origMeta s.
        load_room e (trace w) (cr_RoomId r) = Inr mainRoom
      \<and> unmarshal_meta e (ri_Metadata mainRoom) = Inr origMeta
      \<and> marshal_meta e (set_breakout_active origMeta) = Inr s
      \<and> last (trace (snd (CreateBreakoutRooms e r w)))
          = Call_UpdateRoomMetadata (cr_RoomId r) s None
      \<and> brf_IsActive (f_BreakoutRoomFeatures (md_Features (set_breakout_active origMeta)))"
  proof (cases "load_room e (trace w) (cr_RoomId r)")
    case (Inl x)
    with a show ?thesis by (simp add: CreateBreakoutRooms_not_loaded(1))
  next
    case (Inr mainRoom)
    show ?thesis
    proof (cases "unmarshal_meta e (ri_Metadata mainRoom)")
      case (Inl x)
      with a Inr show ?thesis by (simp add: CreateBreakoutRooms_not_loaded(2))
    next
      case m: (Inr meta)
      show ?thesis
        using a Inr m
        by (cases "marshal_meta e (set_breakout_active meta)")
           (simp_all add: CreateBreakoutRooms_loaded [OF Inr m] Let_def trace_logcall
                          set_breakout_active_def)
    qed
  qed
qed

theorem CreateBreakoutRooms_success_sets_active_witness:
  "fst (CreateBreakoutRooms sample_env sample_req empty_world) = None
   \<and> (\<exists>mainRoom origMeta s.
        load_room sample_env (trace empty_world) (cr_RoomId sample_req) = Inr mainRoom
      \<and> unmarshal_meta sample_env (ri_Metadata mainRoom) = Inr origMeta
      \<and> marshal_meta sample_env (set_breakout_active origMeta) = Inr s
      \<and> last (trace (snd (CreateBreakoutRooms sample_env sample_req empty_world)))
          = Call_UpdateRoomMetadata (cr_RoomId sample_req) s None
      \<and> brf_IsActive (f_BreakoutRoomFeatures (md_Features (set_breakout_active origMeta))))"
proof -
  have ok: "fst (CreateBreakoutRooms sample_env sample_req empty_world) = None"
    by (simp add: run_defs sample_defs)
  from CreateBreakoutRooms_success_sets_active [of sample_env sample_req empty_world] ok show ?thesis by blast
qed

text \<open>
  C9, as amended. The metadata that \<open>CreateBreakoutRooms\<close> writes at its end is the
  serialisation of \<open>origMeta\<close> with \<open>isActive\<close> set, where \<open>origMeta\<close> is a second
  deserialisation of the metadata loaded when the call began: it differs from the
  parent's metadata as loaded in that flag only, so none of the overrides made for the
  child rooms reaches the parent. The Room Directory is read once, at the beginning.
\<close>

theorem CreateBreakoutRooms_writes_initial_snapshot:
  "load_room e (trace w) (cr_RoomId r) = Inr mainRoom
   \<and> unmarshal_meta e (ri_Metadata mainRoom) = Inr origMeta
   \<and> marshal_meta e (set_breakout_active origMeta) = Inr s
   \<longrightarrow> load_calls (since w (snd (CreateBreakoutRooms e r w))) = [cr_RoomId r]
     \<and> (\<exists>res. last (trace (snd (CreateBreakoutRooms e r w)))
                = Call_UpdateRoomMetadata (cr_RoomId r) s res)
     \<and> set_breakout_active origMeta
         = origMeta\<lparr>md_Features := (md_Features origMeta)
             \<lparr>f_BreakoutRoomFeatures :=
                (f_BreakoutRoomFeatures (md_Features origMeta))\<lparr>brf_IsActive := True\<rparr>\<rparr>\<rparr>"
proof
  assume a: "load_room e (trace w) (cr_RoomId r) = Inr mainRoom
   \<and> unmarshal_meta e (ri_Metadata mainRoom) = Inr origMeta
   \<and> marshal_meta e (set_breakout_active origMeta) = Inr s"
  let ?w1 = "logcall (Call_LoadRoomInfo (cr_RoomId r)) w"
  obtain cs where cs:
    "trace (create_rooms_loop e r (child_template r origMeta) (cr_Rooms r) ?w1) = trace ?w1 @ cs"
    "load_calls cs = []"
    using create_rooms_loop_effect [of e r "child_template r origMeta" "cr_Rooms r" ?w1] by blast
  show "load_calls (since w (snd (CreateBreakoutRooms e r w))) = [cr_RoomId r]
     \<and> (\<exists>res. last (trace (snd (CreateBreakoutRooms e r w)))
                = Call_UpdateRoomMetadata (cr_RoomId r) s res)
     \<and> set_breakout_active origMeta
         = origMeta\<lparr>md_Features := (md_Features origMeta)
             \<lparr>f_BreakoutRoomFeatures :=
                (f_BreakoutRoomFeatures (md_Features origMeta))\<lparr>brf_IsActive := True\<rparr>\<rparr>\<rparr>"
    using a cs
    by (simp add: CreateBreakoutRooms_loaded [of e w r mainRoom origMeta] Let_def since_def
                  trace_logcall load_calls_append set_breakout_active_def)
qed

theorem CreateBreakoutRooms_writes_initial_snapshot_witness:
  "load_room edited_env (trace empty_world) (cr_RoomId sample_req) = Inr \<lparr>ri_Metadata = ''M0''\<rparr>
   \<and> unmarshal_meta edited_env ''M0'' = Inr sample_meta
   \<and> marshal_meta edited_env (set_breakout_active sample_meta) = Inr ''M1''
   \<and> load_calls (since empty_world (snd (CreateBreakoutRooms edited_env sample_req empty_world)))
       = [''room1'']
   \<and> (\<exists>res. last (trace (snd (CreateBreakoutRooms edited_env sample_req empty_world)))
                = Call_UpdateRoomMetadata ''room1'' ''M1'' res)"
proof -
  have l: "load_room edited_env (trace empty_world) (cr_RoomId sample_req)
             = Inr \<lparr>ri_Metadata = ''M0''\<rparr>"
    by (simp add: sample_defs)
  have u: "unmarshal_meta edited_env (ri_Metadata \<lparr>ri_Metadata = ''M0''\<rparr>) = Inr sample_meta"
    by (simp add: edited_env_def sample_env_def)
  have m: "marshal_meta edited_env (set_breakout_active sample_meta) = Inr ''M1''"
    by (simp add: sample_defs set_breakout_active_def)
  from CreateBreakoutRooms_writes_initial_snapshot [of edited_env empty_world sample_req "\<lparr>ri_Metadata = ''M0''\<rparr>" sample_meta "''M1''"]
       l u m
  have "load_calls (since empty_world (snd (CreateBreakoutRooms edited_env sample_req empty_world)))
       = [cr_RoomId sample_req]
   \<and> (\<exists>res. last (trace (snd (CreateBreakoutRooms edited_env sample_req empty_world)))
                = Call_UpdateRoomMetadata (cr_RoomId sample_req) ''M1'' res)"
    by blast
  with l u m show ?thesis by (simp add: sample_req_def)
qed

text \<open>
  C9, as stated, says that the metadata written comes from an independent re-read of the
  parent's metadata, so that concurrent edits are kept. In the deployment where the room
  is renamed after the call has begun, the Room Directory holds \<open>M2\<close> (title
  \<open>Renamed\<close>) when the final update is made; a re-read would write \<open>M3\<close>. The call
  writes \<open>M1\<close>, which carries the title \<open>Main\<close> of the metadata loaded at the beginning.
\<close>

theorem CreateBreakoutRooms_no_second_read:
  "last (trace (snd (CreateBreakoutRooms edited_env sample_req empty_world)))
     = Call_UpdateRoomMetadata ''room1'' ''M1'' None
   \<and> load_room edited_env
        (butlast (trace (snd (CreateBreakoutRooms edited_env sample_req empty_world)))) ''room1''
     = Inr \<lparr>ri_Metadata = ''M2''\<rparr>
   \<and> unmarshal_meta edited_env ''M2'' = Inr edited_meta
   \<and> marshal_meta edited_env (set_breakout_active edited_meta) = Inr ''M3''
   \<and> unmarshal_meta edited_env ''M1'' = Inr (set_breakout_active sample_meta)
   \<and> md_RoomTitle (set_breakout_active sample_meta) = ''Main''
   \<and> md_RoomTitle edited_meta = ''Renamed''"
  by (simp add: run_sample) (simp add: sample_defs set_breakout_active_def)

end
